theory Spec2Isabelle
  imports Main "HOL-Library.AList"
begin

section \<open>Data model\<close>

text \<open>
  The room synchronisation server keeps one process-wide table
  \<^verbatim>\<open>clients = map[*websocket.Conn][]*Room\<close> guarded by the mutex \<^verbatim>\<open>mu\<close>.
  A connection pointer is modelled by a number. Every \<^verbatim>\<open>*Room\<close> and \<^verbatim>\<open>*User\<close> is
  allocated fresh where it is stored (\<^verbatim>\<open>&Room{...}\<close>, \<^verbatim>\<open>&User{...}\<close> in handleUserInfo) and
  is never copied into a second slice, so no two slots alias and the pointers are modelled
  by values updated in place. The Go map is an association list with distinct keys whose
  order stands for the order in which a \<^verbatim>\<open>range\<close> loop visits the map.
  Go strings and byte slices are both byte sequences: \<^typ>\<open>string\<close>.
\<close>

type_synonym conn = nat

record User =
  Login :: string
  SessionID :: string
  UserGameID :: string \<comment> \<open>the field \<^verbatim>\<open>GameID\<close> of \<^verbatim>\<open>User\<close>; never assigned by the server\<close>
  Ready :: bool
  Turn :: bool
  Voted :: bool
  InGame :: bool

record Room =
  GameID :: string
  started :: bool
  Users :: "User list"

type_synonym clients = "(conn \<times> Room list) list"

subsection \<open>Protocol messages\<close>

text \<open>
  The generated package \<^verbatim>\<open>ws_server/proto\<close> is not part of the sources. The message types
  below carry exactly the fields that the handlers read or write; the nested
  \<^verbatim>\<open>User\<close> field is a pointer in Go (it is assigned \<^verbatim>\<open>&game.User{...}\<close>), hence optional.
\<close>

datatype ClassTypes =
    PROTO_TYPE_USERINFO | PROTO_TYPE_ACTION | PROTO_TYPE_STATUS | PROTO_TYPE_CHOOSE
  | PROTO_TYPE_GAMEINFO | PROTO_TYPE_DISCONNECT | PROTO_TYPE_CHATMESSAGE
  | PROTO_TYPE_START | PROTO_TYPE_DELETE | PROTO_TYPE_UPDATE
  | PROTO_TYPE_OTHER nat

datatype game_User =
  game_User (User_Login: string) (User_SessionId: string) (User_GameId: string)

datatype game_BaseMessage =
  game_BaseMessage (Base_ClassId: ClassTypes) (Base_Data: string)

datatype game_UserInfo =
  game_UserInfo (UserInfo_User: "game_User option") (UserInfo_Connected: bool)

datatype game_Action =
  game_Action (Action_User: "game_User option")

datatype game_Ready =
  game_Ready (Ready_ClassId: ClassTypes) (Ready_User: "game_User option") (Ready_Status: bool)

datatype game_Choose =
  game_Choose (Choose_User: "game_User option") (Choose_ChosenId: string)

datatype game_GameInfo =
  game_GameInfo (GameInfo_User: "game_User option") (GameInfo_DestinationId: string)

datatype game_Disconnect =
  game_Disconnect (Disconnect_User: "game_User option")

datatype game_ChatMessage =
  game_ChatMessage (Chat_ClassId: ClassTypes) (Chat_User: "game_User option")
    (Chat_Message: string)

datatype game_Start =
  game_Start (Start_GameId: string) (Start_Start: bool) (Start_Text: string)

datatype proto_message =
    MsgBase game_BaseMessage
  | MsgUserInfo game_UserInfo
  | MsgAction game_Action
  | MsgReady game_Ready
  | MsgChoose game_Choose
  | MsgGameInfo game_GameInfo
  | MsgChat game_ChatMessage
  | MsgStart game_Start
  | MsgDeleteCards ClassTypes
  | MsgUpdateInfo game_User

subsection \<open>The environment of one handler run\<close>

text \<open>
  Everything outside the process is a parameter: the protobuf codec, the sockets and the
  HTTP service on port 8080. \<^verbatim>\<open>proto.Unmarshal\<close> and \<^verbatim>\<open>proto.Marshal\<close> return an error as
  \<open>None\<close>. A response of the HTTP service is a transport error, or a status code with a
  body that \<^verbatim>\<open>io.ReadAll\<close> either reads or fails on.
\<close>

datatype http_response = NetworkError | Response nat "string option"

record env =
  unmarshal_BaseMessage :: "string \<Rightarrow> game_BaseMessage option"
  unmarshal_UserInfo :: "string \<Rightarrow> game_UserInfo option"
  unmarshal_Action :: "string \<Rightarrow> game_Action option"
  unmarshal_Ready :: "string \<Rightarrow> game_Ready option"
  unmarshal_Choose :: "string \<Rightarrow> game_Choose option"
  unmarshal_GameInfo :: "string \<Rightarrow> game_GameInfo option"
  unmarshal_Disconnect :: "string \<Rightarrow> game_Disconnect option"
  unmarshal_ChatMessage :: "string \<Rightarrow> game_ChatMessage option"
  marshal :: "proto_message \<Rightarrow> string option"
  write_ok :: "conn \<Rightarrow> bool" \<comment> \<open>does \<^verbatim>\<open>WriteMessage\<close> on this connection succeed\<close>
  close_ok :: "conn \<Rightarrow> bool"
  RemoteAddr :: "conn \<Rightarrow> string"
  http_text :: http_response \<comment> \<open>GET /text\<close>
  http_disconnect :: "string \<Rightarrow> http_response" \<comment> \<open>POST /disconnect\<close>
  http_exit :: "string \<Rightarrow> http_response" \<comment> \<open>POST /exit\<close>
  json_text :: "string \<Rightarrow> string option"
    \<comment> \<open>\<^verbatim>\<open>json.Unmarshal\<close> into \<^verbatim>\<open>TextResponse\<close>: the \<^verbatim>\<open>text\<close> member, \<open>None\<close> on error\<close>
  json_object :: "string \<Rightarrow> bool"
    \<comment> \<open>does \<^verbatim>\<open>json.Unmarshal\<close> decode the body into a \<^verbatim>\<open>map[string]interface{}\<close>\<close>
  json_stream_object :: "string \<Rightarrow> bool"
    \<comment> \<open>does \<^verbatim>\<open>json.NewDecoder(body).Decode\<close> read a \<^verbatim>\<open>map[string]interface{}\<close>
        from the front of the body (data after the first value is not looked at)\<close>

subsection \<open>Observable effects\<close>

text \<open>
  A run produces a trace. Lock and Unlock are the calls on \<^verbatim>\<open>mu\<close>; Write is one
  \<^verbatim>\<open>WriteMessage\<close> with its payload and whether it succeeded; Log carries the format
  string of a \<^verbatim>\<open>log.Printf\<close>. Of the log lines only the first line of each send function
  and the error lines are kept. The goroutines of a fan-out are joined by
  \<^verbatim>\<open>wg.Wait()\<close> before the sending function returns; their writes appear in the
  trace in the order in which they are spawned.
\<close>

datatype http_call = GetTextCall | PostDisconnect string | PostExit string

datatype event =
    Lock | Unlock
  | Write conn string bool
  | Close conn bool
  | Http http_call
  | Log string

datatype error =
    ErrProto | ErrWrite | ErrNetwork | ErrStatusCode nat | ErrReadBody | ErrJSON | ErrNoText

datatype outcome = Returned | Panicked | Deadlocked

section \<open>Roster helpers and aggregate counts\<close>

definition new_User :: "string \<Rightarrow> string \<Rightarrow> User" where
  "new_User login sid =
     \<lparr>Login = login, SessionID = sid, UserGameID = [], Ready = False, Turn = False,
      Voted = False, InGame = False\<rparr>"

definition addUserToRoom :: "Room \<Rightarrow> User \<Rightarrow> Room" where
  "addUserToRoom room user = room\<lparr>Users := Users room @ [user]\<rparr>"

text \<open>\<^verbatim>\<open>append(room.Users[:i], room.Users[i+1:]...)\<close> at the first match, then break.\<close>

fun remove_session :: "string \<Rightarrow> User list \<Rightarrow> User list" where
  "remove_session sid [] = []"
| "remove_session sid (u # us) =
     (if SessionID u = sid then us else u # remove_session sid us)"

definition removeUserFromRoom :: "Room \<Rightarrow> string \<Rightarrow> Room" where
  "removeUserFromRoom room sid = room\<lparr>Users := remove_session sid (Users room)\<rparr>"

text \<open>
  The four counting functions take the lock, scan every replica with the game code and
  release the lock. Their value is modelled here; their two lock events are written by
  the caller as \<open>locked_scan\<close>.
\<close>

definition rooms_of :: "string \<Rightarrow> clients \<Rightarrow> Room list" where
  "rooms_of gameID cl = filter (\<lambda>room. GameID room = gameID) (concat (map snd cl))"

definition clientsMoved :: "string \<Rightarrow> clients \<Rightarrow> nat" where
  "clientsMoved gameID cl =
     sum_list (map (\<lambda>room. length (filter Turn (Users room))) (rooms_of gameID cl))"

definition ClientsInGame :: "string \<Rightarrow> clients \<Rightarrow> nat" where
  "ClientsInGame gameID cl =
     sum_list (map (\<lambda>room. length (filter InGame (Users room))) (rooms_of gameID cl))"

definition ClientsInRoom :: "string \<Rightarrow> clients \<Rightarrow> nat" where
  "ClientsInRoom gameID cl =
     sum_list (map (\<lambda>room. length (Users room)) (rooms_of gameID cl))"

definition clientsReady :: "string \<Rightarrow> clients \<Rightarrow> nat" where
  "clientsReady gameID cl =
     sum_list (map (\<lambda>room. length (filter Ready (Users room))) (rooms_of gameID cl))"

definition locked_scan :: "event list" where
  "locked_scan = [Lock, Unlock]"

text \<open>A loop over every room of every connection that rewrites the room in place.\<close>

definition each_room :: "(Room \<Rightarrow> Room) \<Rightarrow> clients \<Rightarrow> clients" where
  "each_room f cl = map (\<lambda>(c, rooms). (c, map f rooms)) cl"

section \<open>External collaborator client\<close>

text \<open>
  \<^verbatim>\<open>GetText\<close>: the request is built from a constant method and URL, so
  \<^verbatim>\<open>NewRequestWithContext\<close> cannot fail; the five second deadline ends as a transport
  error of \<^verbatim>\<open>Do\<close>.
\<close>

definition GetText :: "env \<Rightarrow> error + string" where
  "GetText e =
     (case http_text e of
        NetworkError \<Rightarrow> Inl ErrNetwork
      | Response code body \<Rightarrow>
          if code \<noteq> 200 then Inl (ErrStatusCode code)
          else (case body of
                  None \<Rightarrow> Inl ErrReadBody
                | Some b \<Rightarrow>
                    (case json_text e b of
                       None \<Rightarrow> Inl ErrJSON
                     | Some t \<Rightarrow> if t = [] then Inl ErrNoText else Inr t)))"

text \<open>
  \<^verbatim>\<open>disconnectUserFromDB\<close>: only the returned error matters to the caller. On status 200
  the body is decoded from the stream, so a read error and a malformed value both surface
  as the error of \<^verbatim>\<open>Decode\<close>.
\<close>

definition disconnectUserFromDB :: "env \<Rightarrow> string \<Rightarrow> error option" where
  "disconnectUserFromDB e sid =
     (case http_disconnect e sid of
        NetworkError \<Rightarrow> Some ErrNetwork
      | Response code body \<Rightarrow>
          if code = 200 then
            (case body of
               None \<Rightarrow> Some ErrJSON
             | Some b \<Rightarrow> if json_stream_object e b then None else Some ErrJSON)
          else (case body of None \<Rightarrow> Some ErrReadBody | Some b \<Rightarrow> None))"

section \<open>Broadcast engine\<close>

text \<open>
  \<^verbatim>\<open>SendMessageToClient\<close>. The \<^verbatim>\<open>client == nil\<close> branch is not modelled: every caller
  passes a key of \<^verbatim>\<open>clients\<close>, and keys are connections returned by a successful upgrade.
\<close>

definition SendMessageToClient :: "env \<Rightarrow> conn \<Rightarrow> string \<Rightarrow> event list \<times> error option" where
  "SendMessageToClient e client msg =
     (if write_ok e client then ([Write client msg True], None)
      else ([Write client msg False, Log ''Error sending message to client: %v''],
            Some ErrWrite))"

text \<open>
  The connections a fan-out for a game code writes to: one entry for every replica with
  that game code, in the order of the two nested \<^verbatim>\<open>range\<close> loops.
\<close>

definition targets :: "string \<Rightarrow> clients \<Rightarrow> conn list" where
  "targets gameID cl =
     concat (map (\<lambda>(c, rooms). map (\<lambda>room. c) (filter (\<lambda>room. GameID room = gameID) rooms)) cl)"

text \<open>
  \<^verbatim>\<open>SendMessageToGameClients\<close> reads \<^verbatim>\<open>clients\<close> without taking the lock, ignores its
  \<^verbatim>\<open>senderWebSocket\<close> argument and always returns nil. Each goroutine logs the error of
  its own \<^verbatim>\<open>SendMessageToClient\<close> once more.
\<close>

definition SendMessageToGameClients ::
  "env \<Rightarrow> string \<Rightarrow> string \<Rightarrow> clients \<Rightarrow> event list \<times> error option" where
  "SendMessageToGameClients e gameID msg cl =
     (Log ''Sending message to game clients for game_id %s'' #
      concat (map (\<lambda>client.
                (case SendMessageToClient e client msg of
                   (t, None) \<Rightarrow> t
                 | (t, Some err) \<Rightarrow> t @ [Log ''Error sending message to client: %v'']))
              (targets gameID cl)),
      None)"

text \<open>
  The send functions for one message kind serialise the payload, wrap it in a
  \<^verbatim>\<open>BaseMessage\<close> with the class id, serialise again and fan out; a serialisation error
  is returned before anything is written.
\<close>

definition send_wrapped ::
  "env \<Rightarrow> ClassTypes \<Rightarrow> proto_message \<Rightarrow> string \<Rightarrow> clients \<Rightarrow> event list \<times> error option" where
  "send_wrapped e cls payload gameID cl =
     (case marshal e payload of
        None \<Rightarrow> ([], Some ErrProto)
      | Some data \<Rightarrow>
          (case marshal e (MsgBase (game_BaseMessage cls data)) of
             None \<Rightarrow> ([], Some ErrProto)
           | Some msg \<Rightarrow> SendMessageToGameClients e gameID msg cl))"

definition with_log :: "string \<Rightarrow> event list \<times> error option \<Rightarrow> event list \<times> error option" where
  "with_log l r = (Log l # fst r, snd r)"

text \<open>
  The message arguments of the following functions carry the \<^verbatim>\<open>User\<close> already
  dereferenced: each caller has read \<^verbatim>\<open>msg.User\<close> before the call, or has built the
  message itself.
\<close>

definition SendStatusToGameClients ::
  "env \<Rightarrow> ClassTypes \<Rightarrow> game_User \<Rightarrow> bool \<Rightarrow> clients \<Rightarrow> event list \<times> error option" where
  "SendStatusToGameClients e cid u st cl =
     with_log ''Sending status to game clients for game_id %s''
       (send_wrapped e PROTO_TYPE_STATUS (MsgReady (game_Ready cid (Some u) st))
          (User_GameId u) cl)"

definition SendActionToGameClients ::
  "env \<Rightarrow> game_User \<Rightarrow> clients \<Rightarrow> event list \<times> error option" where
  "SendActionToGameClients e u cl =
     with_log ''Sending action to game clients for game_id %s''
       (send_wrapped e PROTO_TYPE_ACTION (MsgAction (game_Action (Some u))) (User_GameId u) cl)"

definition SendUserInfoToGameClients ::
  "env \<Rightarrow> game_User \<Rightarrow> bool \<Rightarrow> clients \<Rightarrow> event list \<times> error option" where
  "SendUserInfoToGameClients e u connected cl =
     with_log ''Sending user info to game clients for game_id %s''
       (send_wrapped e PROTO_TYPE_USERINFO (MsgUserInfo (game_UserInfo (Some u) connected))
          (User_GameId u) cl)"

definition SendUpdateMessage ::
  "env \<Rightarrow> string \<Rightarrow> string \<Rightarrow> string \<Rightarrow> clients \<Rightarrow> event list \<times> error option" where
  "SendUpdateMessage e login sessionID gameID cl =
     with_log ''Sending update message for game_id %s''
       (send_wrapped e PROTO_TYPE_UPDATE (MsgUpdateInfo (game_User login sessionID gameID))
          gameID cl)"

definition sendChosenID ::
  "env \<Rightarrow> game_User \<Rightarrow> string \<Rightarrow> clients \<Rightarrow> event list \<times> error option" where
  "sendChosenID e u chosen cl =
     with_log ''Sending chosen_id to game clients for game_id %s''
       (send_wrapped e PROTO_TYPE_CHOOSE (MsgChoose (game_Choose (Some u) chosen))
          (User_GameId u) cl)"

definition sendUserDisconnectMessage ::
  "env \<Rightarrow> string \<Rightarrow> string \<Rightarrow> string \<Rightarrow> clients \<Rightarrow> event list \<times> error option" where
  "sendUserDisconnectMessage e login sessionID gameID cl =
     with_log ''Sending user disconnect message for game_id %s and session_id %s''
       (send_wrapped e PROTO_TYPE_USERINFO
          (MsgUserInfo (game_UserInfo (Some (game_User login sessionID gameID)) False))
          gameID cl)"

text \<open>\<^verbatim>\<open>sendUserStatus\<close> drops the result of the send and returns nil.\<close>

definition sendUserStatus :: "env \<Rightarrow> string \<Rightarrow> string \<Rightarrow> clients \<Rightarrow> event list" where
  "sendUserStatus e sessionID gameID cl =
     Log ''Sending user status message for game_id %s and session_id %s'' #
     fst (SendStatusToGameClients e PROTO_TYPE_STATUS (game_User [] sessionID gameID) False cl)"

text \<open>
  \<^verbatim>\<open>SendDeleteMessage\<close> writes a bare \<^verbatim>\<open>DeleteCards\<close> message (no envelope), serialised
  inside each goroutine, without taking the lock. It always returns nil.
\<close>

definition SendDeleteMessage :: "env \<Rightarrow> string \<Rightarrow> clients \<Rightarrow> event list" where
  "SendDeleteMessage e gameID cl =
     Log ''Sending delete message for game_id %s'' #
     concat (map (\<lambda>client.
               (case marshal e (MsgDeleteCards PROTO_TYPE_DELETE) of
                  None \<Rightarrow> [Log ''Failed to serialize DeleteCards message: %v'']
                | Some msg \<Rightarrow>
                    if write_ok e client then [Write client msg True]
                    else [Write client msg False, Log ''Error sending message to client: %v'']))
             (targets gameID cl))"

text \<open>
  \<^verbatim>\<open>SendStartGameMessageAndMark\<close> holds the lock from before the scan until after
  \<^verbatim>\<open>wg.Wait()\<close> (deferred unlock), marks every user of a matching replica as in game and
  writes to the replica's connection.
\<close>

definition mark_in_game :: "string \<Rightarrow> Room \<Rightarrow> Room" where
  "mark_in_game gameID room =
     (if GameID room = gameID
      then room\<lparr>Users := map (\<lambda>user. user\<lparr>InGame := True\<rparr>) (Users room)\<rparr>
      else room)"

definition SendStartGameMessageAndMark ::
  "env \<Rightarrow> string \<Rightarrow> string \<Rightarrow> clients \<Rightarrow> clients \<times> event list" where
  "SendStartGameMessageAndMark e gameID msg cl =
     (each_room (mark_in_game gameID) cl,
      [Log ''Sending message to game clients for game_id %s'', Lock] @
      concat (map (\<lambda>client.
                (case SendMessageToClient e client msg of
                   (t, None) \<Rightarrow> t
                 | (t, Some err) \<Rightarrow> t @ [Log ''Error sending message to client: %v'']))
              (targets gameID cl)) @
      [Unlock])"

definition SendStartGameMessage ::
  "env \<Rightarrow> string \<Rightarrow> string \<Rightarrow> clients \<Rightarrow> clients \<times> event list" where
  "SendStartGameMessage e gameID text cl =
     (case marshal e (MsgStart (game_Start gameID True text)) of
        None \<Rightarrow> (cl, [Log ''Sending start game message for game_id %s'',
                      Log ''Error serializing Start message: %v''])
      | Some data \<Rightarrow>
          (case marshal e (MsgBase (game_BaseMessage PROTO_TYPE_START data)) of
             None \<Rightarrow> (cl, [Log ''Sending start game message for game_id %s'',
                           Log ''Error serializing BaseMessage: %v''])
           | Some msg \<Rightarrow>
               (case SendStartGameMessageAndMark e gameID msg cl of
                  (cl', t) \<Rightarrow> (cl', Log ''Sending start game message for game_id %s'' # t))))"

text \<open>
  \<^verbatim>\<open>sendChatMessage\<close> builds a fresh \<^verbatim>\<open>ChatMessage\<close> whose session id is the remote
  address of the sending connection, and writes it, under the lock, to the connection
  of every replica with the game code.
\<close>

definition sendChatMessage ::
  "env \<Rightarrow> conn \<Rightarrow> string \<Rightarrow> string \<Rightarrow> string \<Rightarrow> clients \<Rightarrow> event list" where
  "sendChatMessage e conn gameID login message cl =
     (case marshal e (MsgChat (game_ChatMessage PROTO_TYPE_CHATMESSAGE
                        (Some (game_User login (RemoteAddr e conn) gameID)) message)) of
        None \<Rightarrow> [Log ''Error marshaling chat message: %v'']
      | Some data \<Rightarrow>
          (case marshal e (MsgBase (game_BaseMessage PROTO_TYPE_CHATMESSAGE data)) of
             None \<Rightarrow> [Log ''Error marshaling base message: %v'']
           | Some msgData \<Rightarrow>
               [Lock] @
               concat (map (\<lambda>clientConn.
                         if write_ok e clientConn then [Write clientConn msgData True]
                         else [Write clientConn msgData False,
                               Log ''Error writing message to client: %v''])
                       (targets gameID cl)) @
               [Unlock]))"

text \<open>
  \<^verbatim>\<open>sendUpdateInfoToClient\<close>: the first user, in scan order, whose session id is the
  destination id decides the connection; the function returns after that one send.
\<close>

definition holds_session :: "string \<Rightarrow> Room list \<Rightarrow> bool" where
  "holds_session sid rooms = list_ex (\<lambda>room. list_ex (\<lambda>user. SessionID user = sid) (Users room)) rooms"

definition sendUpdateInfoToClient ::
  "env \<Rightarrow> game_GameInfo \<Rightarrow> clients \<Rightarrow> event list \<times> error option" where
  "sendUpdateInfoToClient e gameInfo cl =
     (case find (\<lambda>(c, rooms). holds_session (GameInfo_DestinationId gameInfo) rooms) cl of
        None \<Rightarrow> ([Lock, Log ''Client with destinationId %s not found'', Unlock], None)
      | Some (clientConn, rooms) \<Rightarrow>
          (case marshal e (MsgGameInfo gameInfo) of
             None \<Rightarrow> ([Lock, Log ''Error serializing gameInfo: %v'', Unlock], Some ErrProto)
           | Some data \<Rightarrow>
               (case marshal e (MsgBase (game_BaseMessage PROTO_TYPE_GAMEINFO data)) of
                  None \<Rightarrow> ([Lock, Log ''Error serializing BaseMessage: %v'', Unlock],
                            Some ErrProto)
                | Some msg \<Rightarrow>
                    (case SendMessageToClient e clientConn msg of
                       (t, None) \<Rightarrow> ([Lock] @ t @ [Unlock], None)
                     | (t, Some err) \<Rightarrow>
                         ([Lock] @ t @ [Log ''Error sending update to client %s: %v'', Unlock],
                          None)))))"

section \<open>Handlers\<close>

type_synonym result = "clients \<times> event list \<times> outcome"

text \<open>
  Every handler reads fields of \<^verbatim>\<open>msg.User\<close> directly (\<^verbatim>\<open>chatMsg.User.Login\<close>), not
  through the generated nil-safe getters: with an absent \<^verbatim>\<open>User\<close> the read is a nil
  pointer dereference and the goroutine panics at that statement.
\<close>

subsection \<open>Chat\<close>

definition handleChatMessage :: "env \<Rightarrow> conn \<Rightarrow> string \<Rightarrow> clients \<Rightarrow> result" where
  "handleChatMessage e conn data cl =
     (case unmarshal_ChatMessage e data of
        None \<Rightarrow> (cl, [Log ''Error unmarshaling chat message: %v''], Returned)
      | Some chatMsg \<Rightarrow>
          (case Chat_User chatMsg of
             None \<Rightarrow> (cl, [], Panicked)
           | Some u \<Rightarrow>
               (cl,
                sendChatMessage e conn (User_GameId u) (User_Login u) (Chat_Message chatMsg) cl,
                Returned)))"

subsection \<open>Join and leave\<close>

text \<open>A lookup of a missing key in a Go map gives the nil slice.\<close>

definition rooms_at :: "conn \<Rightarrow> clients \<Rightarrow> Room list" where
  "rooms_at conn cl = (case map_of cl conn of None \<Rightarrow> [] | Some rooms \<Rightarrow> rooms)"

text \<open>The loop over \<^verbatim>\<open>clients[conn]\<close> that stops at the first room with the game code.\<close>

fun in_first_room :: "string \<Rightarrow> (Room \<Rightarrow> Room) \<Rightarrow> Room list \<Rightarrow> Room list" where
  "in_first_room gameID f [] = []"
| "in_first_room gameID f (room # rooms) =
     (if GameID room = gameID then f room # rooms
      else room # in_first_room gameID f rooms)"

text \<open>
  \<^verbatim>\<open>deleteUser\<close> posts to /exit and, on status 200 with a JSON body, takes the lock to
  remove the session from every room. \<open>held\<close> says whether the calling goroutine already
  holds \<^verbatim>\<open>mu\<close>: \<^verbatim>\<open>sync.Mutex\<close> is not reentrant, so the second \<^verbatim>\<open>Lock\<close> never returns.
  The returned error is dropped by the only caller.
\<close>

definition deleteUser :: "env \<Rightarrow> bool \<Rightarrow> string \<Rightarrow> clients \<Rightarrow> result" where
  "deleteUser e held sessionID cl =
     (case http_exit e sessionID of
        NetworkError \<Rightarrow> (cl, [Http (PostExit sessionID)], Returned)
      | Response code body \<Rightarrow>
          if code = 200 then
            (case body of
               None \<Rightarrow> (cl, [Http (PostExit sessionID)], Returned)
             | Some b \<Rightarrow>
                 if json_object e b then
                   (if held then (cl, [Http (PostExit sessionID), Lock], Deadlocked)
                    else (each_room (\<lambda>room. removeUserFromRoom room sessionID) cl,
                          [Http (PostExit sessionID), Lock, Unlock], Returned))
                 else (cl, [Http (PostExit sessionID)], Returned))
          else (cl, [Http (PostExit sessionID)], Returned))"

definition handleUserInfo :: "env \<Rightarrow> conn \<Rightarrow> string \<Rightarrow> clients \<Rightarrow> result" where
  "handleUserInfo e conn data cl =
     (case unmarshal_UserInfo e data of
        None \<Rightarrow> (cl, [Log ''Error unmarshaling UserInfo: %v''], Returned)
      | Some userInfo \<Rightarrow>
          (let cl0 = (if map_of cl conn = None then cl @ [(conn, [])] else cl) in
           case UserInfo_User userInfo of
             None \<Rightarrow> (cl0, [Lock, Unlock], Panicked)
           | Some u \<Rightarrow>
               (let gameID = User_GameId u;
                    user = new_User (User_Login u) (User_SessionId u);
                    rooms = rooms_at conn cl0;
                    sends = (\<lambda>cl1.
                       fst (SendUserInfoToGameClients e u (UserInfo_Connected userInfo) cl1) @
                       fst (SendUpdateMessage e (User_Login u) (User_SessionId u) gameID cl1))
                in
                if list_ex (\<lambda>room. GameID room = gameID) rooms then
                  (if UserInfo_Connected userInfo then
                     (let cl1 = AList.update conn
                                  (in_first_room gameID (\<lambda>room. addUserToRoom room user) rooms) cl0
                      in (cl1, [Lock] @ sends cl1 @ [Unlock], Returned))
                   else
                     (let cl1 = AList.update conn
                                  (in_first_room gameID
                                     (\<lambda>room. removeUserFromRoom room (User_SessionId u)) rooms) cl0
                      in case deleteUser e True (User_SessionId u) cl1 of
                           (cl2, t, Returned) \<Rightarrow> (cl2, [Lock] @ t @ sends cl2 @ [Unlock], Returned)
                         | (cl2, t, oc) \<Rightarrow> (cl2, [Lock] @ t, oc)))
                else
                  (let newRoom = \<lparr>GameID = gameID, started = False, Users = []\<rparr>;
                       newRoom' = (if UserInfo_Connected userInfo
                                   then addUserToRoom newRoom user else newRoom);
                       cl1 = AList.update conn (rooms @ [newRoom']) cl0
                   in (cl1, [Lock] @ sends cl1 @ [Unlock], Returned)))))"

subsection \<open>Turn action\<close>

text \<open>
  The three nested loops of handleAction, with the variable \<^verbatim>\<open>userTurned\<close> threaded
  through: in every room with the game code the first user with the session id is looked
  at, and the loop over that room's users ends there.
\<close>

fun turn_users :: "string \<Rightarrow> User list \<Rightarrow> bool \<Rightarrow> User list \<times> bool" where
  "turn_users sid [] userTurned = ([], userTurned)"
| "turn_users sid (user # users) userTurned =
     (if SessionID user = sid then
        (if Turn user then (user # users, True)
         else (user\<lparr>Turn := True\<rparr> # users, userTurned))
      else (case turn_users sid users userTurned of
              (users', t) \<Rightarrow> (user # users', t)))"

fun turn_rooms :: "string \<Rightarrow> string \<Rightarrow> Room list \<Rightarrow> bool \<Rightarrow> Room list \<times> bool" where
  "turn_rooms gameID sid [] userTurned = ([], userTurned)"
| "turn_rooms gameID sid (room # rooms) userTurned =
     (if GameID room = gameID then
        (case turn_users sid (Users room) userTurned of
           (users', t) \<Rightarrow>
             (case turn_rooms gameID sid rooms t of
                (rooms', t') \<Rightarrow> (room\<lparr>Users := users'\<rparr> # rooms', t')))
      else (case turn_rooms gameID sid rooms userTurned of
              (rooms', t') \<Rightarrow> (room # rooms', t')))"

fun turn_clients :: "string \<Rightarrow> string \<Rightarrow> clients \<Rightarrow> bool \<Rightarrow> clients \<times> bool" where
  "turn_clients gameID sid [] userTurned = ([], userTurned)"
| "turn_clients gameID sid ((c, rooms) # rest) userTurned =
     (case turn_rooms gameID sid rooms userTurned of
        (rooms', t) \<Rightarrow>
          (case turn_clients gameID sid rest t of
             (rest', t') \<Rightarrow> ((c, rooms') # rest', t')))"

text \<open>
  The reset loop of handleAction: both assignments stand inside the loop over the users,
  so a replica without users keeps its \<^verbatim>\<open>started\<close> flag.
\<close>

definition end_round :: "string \<Rightarrow> Room \<Rightarrow> Room" where
  "end_round gameID room =
     (if GameID room = gameID \<and> Users room \<noteq> []
      then room\<lparr>started := False,
                Users := map (\<lambda>user. user\<lparr>Voted := False\<rparr>) (Users room)\<rparr>
      else room)"

definition log_if_error :: "string \<Rightarrow> error option \<Rightarrow> event list" where
  "log_if_error l err = (case err of None \<Rightarrow> [] | Some x \<Rightarrow> [Log l])"

definition handleAction :: "env \<Rightarrow> conn \<Rightarrow> string \<Rightarrow> clients \<Rightarrow> result" where
  "handleAction e conn data cl =
     (case unmarshal_Action e data of
        None \<Rightarrow> (cl, [Log ''Error unmarshaling Action: %v''], Returned)
      | Some action \<Rightarrow>
          (case Action_User action of
             None \<Rightarrow> (cl, [], Panicked)
           | Some u \<Rightarrow>
               (case turn_clients (User_GameId u) (User_SessionId u) cl False of
                  (cl1, userTurned) \<Rightarrow>
                    if userTurned then (cl1, [Lock, Unlock, Log ''User already turned''], Returned)
                    else
                      (let sent = SendActionToGameClients e u cl1;
                           t = [Lock, Unlock] @ fst sent @
                               log_if_error ''Failed to send action to game clients: %v'' (snd sent) @
                               locked_scan @ locked_scan
                       in if clientsMoved (User_GameId u) cl1 = ClientsInGame (User_GameId u) cl1
                          then (each_room (end_round (User_GameId u)) cl1,
                                t @ SendDeleteMessage e (User_GameId u) cl1 @ [Lock, Unlock],
                                Returned)
                          else (cl1, t, Returned)))))"

subsection \<open>Ready toggle and round start\<close>

text \<open>
  The toggle loops of handleStatus with \<^verbatim>\<open>status.Status\<close> threaded through: only
  replicas that are not started are touched, and the outgoing status is the new flag of
  the last replica toggled.
\<close>

fun toggle_users :: "string \<Rightarrow> User list \<Rightarrow> bool \<Rightarrow> User list \<times> bool" where
  "toggle_users sid [] st = ([], st)"
| "toggle_users sid (user # users) st =
     (if SessionID user = sid then (user\<lparr>Ready := \<not> Ready user\<rparr> # users, \<not> Ready user)
      else (case toggle_users sid users st of (users', st') \<Rightarrow> (user # users', st')))"

fun toggle_rooms :: "string \<Rightarrow> string \<Rightarrow> Room list \<Rightarrow> bool \<Rightarrow> Room list \<times> bool" where
  "toggle_rooms gameID sid [] st = ([], st)"
| "toggle_rooms gameID sid (room # rooms) st =
     (if GameID room = gameID \<and> \<not> started room then
        (case toggle_users sid (Users room) st of
           (users', st') \<Rightarrow>
             (case toggle_rooms gameID sid rooms st' of
                (rooms', st'') \<Rightarrow> (room\<lparr>Users := users'\<rparr> # rooms', st'')))
      else (case toggle_rooms gameID sid rooms st of
              (rooms', st') \<Rightarrow> (room # rooms', st')))"

fun toggle_clients :: "string \<Rightarrow> string \<Rightarrow> clients \<Rightarrow> bool \<Rightarrow> clients \<times> bool" where
  "toggle_clients gameID sid [] st = ([], st)"
| "toggle_clients gameID sid ((c, rooms) # rest) st =
     (case toggle_rooms gameID sid rooms st of
        (rooms', st') \<Rightarrow>
          (case toggle_clients gameID sid rest st' of
             (rest', st'') \<Rightarrow> ((c, rooms') # rest', st'')))"

text \<open>The reset loop after Start; all four assignments stand inside the loop over the users.\<close>

definition start_round :: "string \<Rightarrow> Room \<Rightarrow> Room" where
  "start_round gameID room =
     (if GameID room = gameID \<and> Users room \<noteq> []
      then room\<lparr>started := True,
                Users := map (\<lambda>user. user\<lparr>Ready := False, Turn := False\<rparr>) (Users room)\<rparr>
      else room)"

text \<open>
  With an absent \<^verbatim>\<open>User\<close> the first dereference is the loop condition
  \<^verbatim>\<open>room.GameID == string(status.User.GameId)\<close>, evaluated with \<^verbatim>\<open>mu\<close> held and no
  deferred unlock; when no connection has a room the loop body is never entered and the
  dereference happens in the argument of \<^verbatim>\<open>ClientsInRoom\<close>, after the unlock.
\<close>

definition handleStatus :: "env \<Rightarrow> conn \<Rightarrow> string \<Rightarrow> clients \<Rightarrow> result" where
  "handleStatus e conn data cl =
     (case unmarshal_Ready e data of
        None \<Rightarrow> (cl, [Log ''Error unmarshaling Ready: %v''], Returned)
      | Some status \<Rightarrow>
          (case Ready_User status of
             None \<Rightarrow> (if concat (map snd cl) = [] then (cl, [Lock, Unlock], Panicked)
                       else (cl, [Lock], Panicked))
           | Some u \<Rightarrow>
               (case toggle_clients (User_GameId u) (User_SessionId u) cl (Ready_Status status) of
                  (cl1, st1) \<Rightarrow>
                    (let sent = SendStatusToGameClients e (Ready_ClassId status) u st1 cl1;
                         t = [Lock, Unlock] @ locked_scan @ locked_scan @ fst sent @
                             log_if_error ''Failed to send status to game clients: %v'' (snd sent)
                     in if clientsReady (User_GameId u) cl1 = ClientsInRoom (User_GameId u) cl1
                        then
                          (case GetText e of
                             Inl err \<Rightarrow>
                               (cl1, t @ [Http GetTextCall,
                                          Log ''Error fetching text for game_id %s: %v''],
                                Returned)
                           | Inr text \<Rightarrow>
                               (case SendStartGameMessage e (User_GameId u) text cl1 of
                                  (cl2, t2) \<Rightarrow>
                                    (let cl3 = each_room (start_round (User_GameId u)) cl2;
                                         st2 = (if ClientsInRoom (User_GameId u) cl2 = 0
                                                then st1 else False);
                                         sent2 = SendStatusToGameClients e (Ready_ClassId status)
                                                   u st2 cl3
                                     in (cl3,
                                         t @ [Http GetTextCall] @ t2 @ [Lock, Unlock] @ fst sent2 @
                                         log_if_error ''Failed to send status to game clients: %v''
                                           (snd sent2),
                                         Returned))))
                        else (cl1, t, Returned)))))"

subsection \<open>Vote\<close>

text \<open>
  The loops of handleChoose with \<^verbatim>\<open>userVoted\<close> threaded through. The
  \<^verbatim>\<open>if userVoted { break }\<close> leaves the loop over one connection's rooms only.
\<close>

fun vote_users :: "string \<Rightarrow> User list \<Rightarrow> bool \<Rightarrow> User list \<times> bool" where
  "vote_users sid [] userVoted = ([], userVoted)"
| "vote_users sid (user # users) userVoted =
     (if SessionID user = sid then
        (if Voted user then (user # users, True)
         else (user\<lparr>Voted := True\<rparr> # users, userVoted))
      else (case vote_users sid users userVoted of
              (users', v) \<Rightarrow> (user # users', v)))"

fun vote_rooms :: "string \<Rightarrow> string \<Rightarrow> Room list \<Rightarrow> bool \<Rightarrow> Room list \<times> bool" where
  "vote_rooms gameID sid [] userVoted = ([], userVoted)"
| "vote_rooms gameID sid (room # rooms) userVoted =
     (if GameID room = gameID then
        (case vote_users sid (Users room) userVoted of
           (users', v) \<Rightarrow>
             if v then (room\<lparr>Users := users'\<rparr> # rooms, v)
             else (case vote_rooms gameID sid rooms v of
                     (rooms', v') \<Rightarrow> (room\<lparr>Users := users'\<rparr> # rooms', v')))
      else (case vote_rooms gameID sid rooms userVoted of
              (rooms', v) \<Rightarrow> (room # rooms', v)))"

fun vote_clients :: "string \<Rightarrow> string \<Rightarrow> clients \<Rightarrow> bool \<Rightarrow> clients \<times> bool" where
  "vote_clients gameID sid [] userVoted = ([], userVoted)"
| "vote_clients gameID sid ((c, rooms) # rest) userVoted =
     (case vote_rooms gameID sid rooms userVoted of
        (rooms', v) \<Rightarrow>
          (case vote_clients gameID sid rest v of
             (rest', v') \<Rightarrow> ((c, rooms') # rest', v')))"

definition handleChoose :: "env \<Rightarrow> conn \<Rightarrow> string \<Rightarrow> clients \<Rightarrow> result" where
  "handleChoose e conn data cl =
     (case unmarshal_Choose e data of
        None \<Rightarrow> (cl, [Log ''Error unmarshaling Choose: %v''], Returned)
      | Some chooseMsg \<Rightarrow>
          (case Choose_User chooseMsg of
             None \<Rightarrow> (cl, [], Panicked)
           | Some u \<Rightarrow>
               (case vote_clients (User_GameId u) (User_SessionId u) cl False of
                  (cl1, userVoted) \<Rightarrow>
                    if userVoted
                    then (cl1, [Lock, Log ''User already voted, not sending chosen_id'', Unlock],
                          Returned)
                    else
                      (let sent = sendChosenID e u (Choose_ChosenId chooseMsg) cl1
                       in (cl1,
                           [Lock] @ fst sent @
                           log_if_error ''Error sending chosen_id: %v'' (snd sent) @ [Unlock],
                           Returned)))))"

subsection \<open>Point-to-point\<close>

definition handleGameInfo :: "env \<Rightarrow> string \<Rightarrow> clients \<Rightarrow> result" where
  "handleGameInfo e data cl =
     (case unmarshal_GameInfo e data of
        None \<Rightarrow> (cl, [Log ''Error unmarshaling GameInfo: %v''], Returned)
      | Some gameInfo \<Rightarrow>
          (case GameInfo_User gameInfo of
             None \<Rightarrow> (cl, [], Panicked)
           | Some u \<Rightarrow>
               (let sent = sendUpdateInfoToClient e gameInfo cl
                in (cl,
                    fst sent @
                    log_if_error ''Error sending update info to client: %v'' (snd sent),
                    Returned))))"

subsection \<open>Disconnect\<close>

text \<open>
  \<^verbatim>\<open>disconnectUser\<close> removes the session from the first room, in scan order, that holds
  it, closes the connection that owns this replica and leaves all three loops.
\<close>

fun disconnect_rooms :: "string \<Rightarrow> Room list \<Rightarrow> Room list" where
  "disconnect_rooms sid [] = []"
| "disconnect_rooms sid (room # rooms) =
     (if list_ex (\<lambda>user. SessionID user = sid) (Users room)
      then removeUserFromRoom room sid # rooms
      else room # disconnect_rooms sid rooms)"

fun disconnect_clients :: "env \<Rightarrow> string \<Rightarrow> clients \<Rightarrow> clients \<times> event list" where
  "disconnect_clients e sid [] = ([], [Log ''User with session_id %s not found in clients''])"
| "disconnect_clients e sid ((c, rooms) # rest) =
     (if holds_session sid rooms
      then ((c, disconnect_rooms sid rooms) # rest, [Close c (close_ok e c)])
      else (case disconnect_clients e sid rest of
              (rest', t) \<Rightarrow> ((c, rooms) # rest', t)))"

definition disconnectUser :: "env \<Rightarrow> string \<Rightarrow> clients \<Rightarrow> clients \<times> event list" where
  "disconnectUser e sessionID cl =
     (case disconnect_clients e sessionID cl of (cl', t) \<Rightarrow> (cl', [Lock] @ t @ [Unlock]))"

text \<open>The two reset loops of updateGame.\<close>

definition reset_turn_voted :: "string \<Rightarrow> Room \<Rightarrow> Room" where
  "reset_turn_voted gameID room =
     (if GameID room = gameID
      then room\<lparr>Users := map (\<lambda>user. user\<lparr>Turn := False, Voted := False\<rparr>) (Users room)\<rparr>
      else room)"

definition reset_ready :: "string \<Rightarrow> Room \<Rightarrow> Room" where
  "reset_ready gameID room =
     (if GameID room = gameID
      then room\<lparr>Users := map (\<lambda>user. user\<lparr>Ready := False\<rparr>) (Users room)\<rparr>
      else room)"

text \<open>
  In its second loop updateGame calls \<^verbatim>\<open>sendUserStatus(user.SessionID, user.GameID, ...)\<close>
  once for every user of every replica with the game code, with \<^verbatim>\<open>mu\<close> held. The fan-out
  inside reads only the game codes of the rooms, which the loop does not change.
\<close>

definition updateGame :: "env \<Rightarrow> string \<Rightarrow> clients \<Rightarrow> result" where
  "updateGame e game_id cl =
     (let moved = (ClientsInGame game_id cl = clientsMoved game_id cl);
          cl1 = (if moved then each_room (reset_turn_voted game_id) cl else cl);
          t1 = locked_scan @ locked_scan @
               (if moved then SendDeleteMessage e game_id cl @ [Lock, Unlock] else []) @
               locked_scan @ locked_scan
      in if ClientsInRoom game_id cl1 = clientsReady game_id cl1 then
           (case GetText e of
              Inl err \<Rightarrow>
                (cl1, t1 @ [Http GetTextCall, Log ''Error fetching text for game_id %s: %v''],
                 Returned)
            | Inr text \<Rightarrow>
                (case SendStartGameMessage e game_id text cl1 of
                   (cl2, t2) \<Rightarrow>
                     (each_room (reset_ready game_id) cl2,
                      t1 @ [Http GetTextCall] @ t2 @ [Lock] @
                      concat (map (\<lambda>user. sendUserStatus e (SessionID user) (UserGameID user) cl2)
                                (concat (map Users (rooms_of game_id cl2)))) @
                      [Unlock],
                      Returned)))
         else (cl1, t1, Returned))"

definition handleDisconnect :: "env \<Rightarrow> conn \<Rightarrow> string \<Rightarrow> clients \<Rightarrow> result" where
  "handleDisconnect e conn data cl =
     (case unmarshal_Disconnect e data of
        None \<Rightarrow> (cl, [Log ''Error unmarshaling Disconnect: %v''], Returned)
      | Some disconnect \<Rightarrow>
          (case Disconnect_User disconnect of
             None \<Rightarrow> (cl, [], Panicked)
           | Some u \<Rightarrow>
               (case disconnectUser e (User_SessionId u) cl of
                  (cl1, t1) \<Rightarrow>
                    (let sent = sendUserDisconnectMessage e (User_Login u) (User_SessionId u)
                                  (User_GameId u) cl1
                     in case updateGame e (User_GameId u) cl1 of
                          (cl2, t2, oc) \<Rightarrow>
                            (cl2,
                             t1 @ [Http (PostDisconnect (User_SessionId u))] @
                             log_if_error ''Error disconnecting user from DB: %v''
                               (disconnectUserFromDB e (User_SessionId u)) @
                             fst sent @
                             log_if_error ''Error sending user disconnect message: %v'' (snd sent) @
                             t2,
                             oc)))))"

section \<open>Message router\<close>

definition dispatch :: "env \<Rightarrow> conn \<Rightarrow> game_BaseMessage \<Rightarrow> clients \<Rightarrow> result" where
  "dispatch e conn baseMsg cl =
     (case Base_ClassId baseMsg of
        PROTO_TYPE_USERINFO \<Rightarrow> handleUserInfo e conn (Base_Data baseMsg) cl
      | PROTO_TYPE_ACTION \<Rightarrow> handleAction e conn (Base_Data baseMsg) cl
      | PROTO_TYPE_STATUS \<Rightarrow> handleStatus e conn (Base_Data baseMsg) cl
      | PROTO_TYPE_CHOOSE \<Rightarrow> handleChoose e conn (Base_Data baseMsg) cl
      | PROTO_TYPE_GAMEINFO \<Rightarrow> handleGameInfo e (Base_Data baseMsg) cl
      | PROTO_TYPE_DISCONNECT \<Rightarrow> handleDisconnect e conn (Base_Data baseMsg) cl
      | PROTO_TYPE_CHATMESSAGE \<Rightarrow> handleChatMessage e conn (Base_Data baseMsg) cl
      | _ \<Rightarrow> (cl, [Log ''Unknown message type: %v''], Returned))"

text \<open>
  The read loop of handleClient over the frames that \<^verbatim>\<open>ReadMessage\<close> delivers; after the
  last frame the read fails and the loop is left. A panic in a handler leaves the loop as
  well. \<open>read_loop\<close> returns the frames that were never read.
\<close>

fun read_loop :: "env \<Rightarrow> conn \<Rightarrow> string list \<Rightarrow> clients \<Rightarrow> result \<times> string list" where
  "read_loop e conn [] cl = ((cl, [], Returned), [])"
| "read_loop e conn (message # rest) cl =
     (case unmarshal_BaseMessage e message of
        None \<Rightarrow>
          (case read_loop e conn rest cl of
             ((cl', t, oc), unread) \<Rightarrow>
               ((cl', Log ''Error unmarshaling message: %v'' # t, oc), unread))
      | Some baseMsg \<Rightarrow>
          (case dispatch e conn baseMsg cl of
             (cl1, t1, Returned) \<Rightarrow>
               (case read_loop e conn rest cl1 of
                  ((cl', t, oc), unread) \<Rightarrow> ((cl', t1 @ t, oc), unread))
           | (cl1, t1, oc) \<Rightarrow> ((cl1, t1, oc), rest)))"

text \<open>Is \<^verbatim>\<open>mu\<close> held at the end of a trace that starts with \<^verbatim>\<open>mu\<close> in state \<open>held\<close>.\<close>

fun lock_held :: "bool \<Rightarrow> event list \<Rightarrow> bool" where
  "lock_held held [] = held"
| "lock_held held (Lock # t) = lock_held True t"
| "lock_held held (Unlock # t) = lock_held False t"
| "lock_held held (ev # t) = lock_held held t"

text \<open>
  handleClient: the deferred function runs when the loop is left or a handler panics; it
  takes \<^verbatim>\<open>mu\<close>, deletes the connection from the registry and closes the socket. When the
  panicking handler still holds \<^verbatim>\<open>mu\<close>, the deferred \<^verbatim>\<open>Lock\<close> never returns.
\<close>

definition handleClient :: "env \<Rightarrow> conn \<Rightarrow> string list \<Rightarrow> clients \<Rightarrow> result \<times> string list" where
  "handleClient e conn messages cl =
     (case read_loop e conn messages cl of
        ((cl', t, Deadlocked), unread) \<Rightarrow> ((cl', t, Deadlocked), unread)
      | ((cl', t, oc), unread) \<Rightarrow>
          if lock_held False t then ((cl', t @ [Lock], Deadlocked), unread)
          else ((AList.delete conn cl', t @ [Lock, Unlock, Close conn (close_ok e conn)], oc),
                unread))"

section \<open>Predicates on traces and registry states\<close>

fun is_write :: "event \<Rightarrow> bool" where
  "is_write (Write c m ok) = True"
| "is_write ev = False"

definition forget_ready :: "Room \<Rightarrow> Room" where
  "forget_ready room = room\<lparr>Users := map (\<lambda>user. user\<lparr>Ready := False\<rparr>) (Users room)\<rparr>"

definition no_users :: "string \<Rightarrow> Room \<Rightarrow> bool" where
  "no_users gameID room = (GameID room \<noteq> gameID \<or> Users room = [])"







fun is_io :: "event \<Rightarrow> bool" where
  "is_io (Write c m ok) = True"
| "is_io (Http call) = True"
| "is_io ev = False"

fun is_http :: "event \<Rightarrow> bool" where
  "is_http (Http call) = True"
| "is_http ev = False"

fun unlocked_at :: "(event \<Rightarrow> bool) \<Rightarrow> bool \<Rightarrow> event list \<Rightarrow> bool" where
  "unlocked_at P held [] = True"
| "unlocked_at P held (Lock # t) = unlocked_at P True t"
| "unlocked_at P held (Unlock # t) = unlocked_at P False t"
| "unlocked_at P held (ev # t) = (\<not> (held \<and> P ev) \<and> unlocked_at P held t)"

definition plain :: "event list \<Rightarrow> bool" where
  "plain t = list_all (\<lambda>ev. ev \<noteq> Lock \<and> ev \<noteq> Unlock) t"



section \<open>Concrete scenarios\<close>

text \<open>
  A stand-in codec and service for evaluating the handlers on concrete inputs, and a few
  registry states.
\<close>

definition toy_marshal :: "proto_message \<Rightarrow> string option" where
  "toy_marshal m =
     (case m of
        MsgBase b \<Rightarrow> Some (''base:'' @ Base_Data b)
      | MsgChat c \<Rightarrow>
          (case Chat_User c of
             None \<Rightarrow> Some ''chat''
           | Some u \<Rightarrow> Some (''chat:'' @ User_Login u @ '','' @ User_SessionId u @ '','' @
                             User_GameId u @ '','' @ Chat_Message c))
      | MsgStart s \<Rightarrow> Some (''start:'' @ Start_Text s)
      | MsgDeleteCards c \<Rightarrow> Some ''delete''
      | _ \<Rightarrow> Some ''payload'')"

definition quiet_env :: env where
  "quiet_env =
     \<lparr>unmarshal_BaseMessage = (\<lambda>b. None),
      unmarshal_UserInfo = (\<lambda>b. None),
      unmarshal_Action = (\<lambda>b. None),
      unmarshal_Ready = (\<lambda>b. None),
      unmarshal_Choose = (\<lambda>b. None),
      unmarshal_GameInfo = (\<lambda>b. None),
      unmarshal_Disconnect = (\<lambda>b. None),
      unmarshal_ChatMessage = (\<lambda>b. None),
      marshal = toy_marshal,
      write_ok = (\<lambda>c. True),
      close_ok = (\<lambda>c. True),
      RemoteAddr = (\<lambda>c. ''10.0.0.1:5000''),
      http_text = Response 200 (Some ''{}''),
      http_disconnect = (\<lambda>sid. Response 200 (Some ''{}'')),
      http_exit = (\<lambda>sid. Response 204 (Some [])),
      json_text = (\<lambda>b. if b = [] then None else Some ''prompt''),
      json_object = (\<lambda>b. b \<noteq> []),
      json_stream_object = (\<lambda>b. b \<noteq> [])\<rparr>"

definition player :: "string \<Rightarrow> string \<Rightarrow> bool \<Rightarrow> bool \<Rightarrow> bool \<Rightarrow> bool \<Rightarrow> User" where
  "player login sid r t v g =
     \<lparr>Login = login, SessionID = sid, UserGameID = [], Ready = r, Turn = t, Voted = v, InGame = g\<rparr>"

definition three_peers :: clients where
  "three_peers =
     [(1, [\<lparr>GameID = ''g'', started = False, Users = [player ''ann'' ''s1'' False False False False]\<rparr>]),
      (2, [\<lparr>GameID = ''g'', started = False, Users = [player ''ann'' ''s1'' False False False False]\<rparr>]),
      (3, [\<lparr>GameID = ''g'', started = False, Users = [player ''ann'' ''s1'' False False False False]\<rparr>]),
      (4, [\<lparr>GameID = ''h'', started = False, Users = []\<rparr>])]"

definition chat_env :: env where
  "chat_env =
     quiet_env\<lparr>unmarshal_ChatMessage :=
       (\<lambda>b. Some (game_ChatMessage PROTO_TYPE_CHATMESSAGE
                    (Some (game_User ''ann'' ''s1'' ''g'')) ''hello''))\<rparr>"

definition status_env :: "string \<Rightarrow> string \<Rightarrow> env" where
  "status_env sid gameID =
     quiet_env\<lparr>unmarshal_Ready :=
       (\<lambda>b. Some (game_Ready PROTO_TYPE_STATUS (Some (game_User [] sid gameID)) True))\<rparr>"

definition ready_peers :: clients where
  "ready_peers =
     [(1, [\<lparr>GameID = ''g'', started = False, Users = [player ''ann'' ''s1'' True False False False]\<rparr>]),
      (2, [\<lparr>GameID = ''g'', started = False, Users = [player ''ann'' ''s1'' True False False False]\<rparr>]),
      (3, [\<lparr>GameID = ''g'', started = False, Users = [player ''ann'' ''s1'' True False False False]\<rparr>]),
      (4, [\<lparr>GameID = ''h'', started = False, Users = []\<rparr>])]"

definition action_env :: "string \<Rightarrow> string \<Rightarrow> env" where
  "action_env sid gameID =
     quiet_env\<lparr>unmarshal_Action := (\<lambda>b. Some (game_Action (Some (game_User ''ann'' sid gameID))))\<rparr>"


definition join_env :: env where
  "join_env =
     quiet_env\<lparr>unmarshal_UserInfo :=
       (\<lambda>b. Some (game_UserInfo (Some (game_User ''ann'' ''s1'' ''g'')) True))\<rparr>"

definition round_of_one :: clients where
  "round_of_one =
     [(1, [\<lparr>GameID = ''g'', started = True,
            Users = [player ''ann'' ''s1'' False False True True]\<rparr>])]"

definition nil_user_env :: env where
  "nil_user_env =
     quiet_env\<lparr>unmarshal_BaseMessage := (\<lambda>b. Some (game_BaseMessage PROTO_TYPE_CHATMESSAGE [])),
               unmarshal_ChatMessage := (\<lambda>b. Some (game_ChatMessage (PROTO_TYPE_OTHER 0) None []))\<rparr>"

definition disconnect_env :: "string \<Rightarrow> string \<Rightarrow> env" where
  "disconnect_env sid gameID =
     quiet_env\<lparr>unmarshal_Disconnect :=
       (\<lambda>b. Some (game_Disconnect (Some (game_User ''bob'' sid gameID))))\<rparr>"

definition round_of_two :: clients where
  "round_of_two =
     [(1, [\<lparr>GameID = ''g'', started = True,
            Users = [player ''ann'' ''s1'' False True True True,
                     player ''bob'' ''s2'' False False False True]\<rparr>])]"

definition lobby_of_two :: clients where
  "lobby_of_two =
     [(1, [\<lparr>GameID = ''g'', started = False,
            Users = [player ''ann'' ''s1'' True False False False,
                     player ''bob'' ''s2'' False False False False]\<rparr>])]"



definition join_of :: "string \<Rightarrow> string \<Rightarrow> string \<Rightarrow> env" where
  "join_of login sid gameID =
     quiet_env\<lparr>unmarshal_UserInfo :=
       (\<lambda>b. Some (game_UserInfo (Some (game_User login sid gameID)) True))\<rparr>"

definition two_tables :: clients where
  "two_tables =
     [(1, [\<lparr>GameID = ''g'', started = False,
            Users = [player ''ann'' ''s1'' False False False False,
                     player ''bob'' ''s2'' False False False False]\<rparr>]),
      (2, [\<lparr>GameID = ''g'', started = False,
            Users = [player ''bob'' ''s2'' False False False False,
                     player ''ann'' ''s1'' False False False False]\<rparr>])]"

section \<open>Broadcast fan-out\<close>

lemma targets_set:
  "set (targets gameID cl) =
     {c. \<exists>rooms. (c, rooms) \<in> set cl \<and> (\<exists>room \<in> set rooms. GameID room = gameID)}"
  by (auto simp: targets_def)

lemma fanout_writes:
  "filter is_write
     (concat (map (\<lambda>client.
                (case SendMessageToClient e client msg of
                   (t, None) \<Rightarrow> t
                 | (t, Some err) \<Rightarrow> t @ [Log l])) cs)) =
   map (\<lambda>c. Write c msg (write_ok e c)) cs"
  by (induction cs) (simp_all add: SendMessageToClient_def)

lemma fanout_error_lines:
  "count_list
     (concat (map (\<lambda>client.
                (case SendMessageToClient e client msg of
                   (t, None) \<Rightarrow> t
                 | (t, Some err) \<Rightarrow> t @ [Log ''Error sending message to client: %v''])) cs))
     (Log ''Error sending message to client: %v'') =
   2 * length (filter (\<lambda>c. \<not> write_ok e c) cs)"
  by (induction cs) (simp_all add: SendMessageToClient_def)

text \<open>
  C7. A broadcast to a game code attempts one write on the connection of every replica
  with that game code, all of them before it returns; a failed write is logged (once by
  SendMessageToClient and once by the goroutine), the writes to the other connections
  are attempted all the same, and the call returns nil.
\<close>

theorem SendMessageToGameClients_isolation:
  "snd (SendMessageToGameClients e gameID msg cl) = None \<and>
   filter is_write (fst (SendMessageToGameClients e gameID msg cl)) =
     map (\<lambda>c. Write c msg (write_ok e c)) (targets gameID cl) \<and>
   set (targets gameID cl) =
     {c. \<exists>rooms. (c, rooms) \<in> set cl \<and> (\<exists>room \<in> set rooms. GameID room = gameID)} \<and>
   count_list (fst (SendMessageToGameClients e gameID msg cl))
     (Log ''Error sending message to client: %v'') =
     2 * length (filter (\<lambda>c. \<not> write_ok e c) (targets gameID cl))"
  by (simp add: SendMessageToGameClients_def fanout_writes fanout_error_lines targets_set)

theorem SendMessageToGameClients_isolation_witness:
  "snd (SendMessageToGameClients (quiet_env\<lparr>write_ok := (\<lambda>c. c \<noteq> 2)\<rparr>) ''g'' ''m'' three_peers) = None \<and>
   filter is_write
     (fst (SendMessageToGameClients (quiet_env\<lparr>write_ok := (\<lambda>c. c \<noteq> 2)\<rparr>) ''g'' ''m'' three_peers)) =
     [Write 1 ''m'' True, Write 2 ''m'' False, Write 3 ''m'' True] \<and>
   set (targets ''g'' three_peers) = {1, 2, 3} \<and>
   count_list
     (fst (SendMessageToGameClients (quiet_env\<lparr>write_ok := (\<lambda>c. c \<noteq> 2)\<rparr>) ''g'' ''m'' three_peers))
     (Log ''Error sending message to client: %v'') = 2"
  using SendMessageToGameClients_isolation
          [of "quiet_env\<lparr>write_ok := (\<lambda>c. c \<noteq> 2)\<rparr>" "''g''" "''m''" three_peers]
  by (simp add: targets_def three_peers_def quiet_env_def)


section \<open>Chat\<close>

lemma chat_fanout_writes:
  "filter is_write
     (concat (map (\<lambda>c. if write_ok e c then [Write c b True] else [Write c b False, Log l]) cs)) =
   map (\<lambda>c. Write c b (write_ok e c)) cs"
  by (induction cs) simp_all

text \<open>
  C10. For an inbound ChatMessage that decodes and has a User, every write of the
  rebroadcast carries the envelope of a ChatMessage whose session id is the remote address
  of the sending connection, whose login, game code and text are those of the inbound
  message, and which never mentions the inbound session id; it goes to the connection
  of every replica with the game code.
\<close>

theorem chat_rebroadcast_carries_remote_address:
  assumes dec: "unmarshal_ChatMessage e data = Some chatMsg" and usr: "Chat_User chatMsg = Some u"
  shows "\<exists>t. handleChatMessage e conn data cl = (cl, t, Returned) \<and>
           filter is_write t =
             (case marshal e (MsgChat (game_ChatMessage PROTO_TYPE_CHATMESSAGE
                                (Some (game_User (User_Login u) (RemoteAddr e conn) (User_GameId u)))
                                (Chat_Message chatMsg))) of
                None \<Rightarrow> []
              | Some d \<Rightarrow>
                  (case marshal e (MsgBase (game_BaseMessage PROTO_TYPE_CHATMESSAGE d)) of
                     None \<Rightarrow> []
                   | Some b \<Rightarrow> map (\<lambda>c. Write c b (write_ok e c)) (targets (User_GameId u) cl)))"
proof -
  let ?t = "sendChatMessage e conn (User_GameId u) (User_Login u) (Chat_Message chatMsg) cl"
  have run: "handleChatMessage e conn data cl = (cl, ?t, Returned)"
    by (simp add: handleChatMessage_def dec usr)
  have "filter is_write ?t =
          (case marshal e (MsgChat (game_ChatMessage PROTO_TYPE_CHATMESSAGE
                                (Some (game_User (User_Login u) (RemoteAddr e conn) (User_GameId u)))
                                (Chat_Message chatMsg))) of
                None \<Rightarrow> []
              | Some d \<Rightarrow>
                  (case marshal e (MsgBase (game_BaseMessage PROTO_TYPE_CHATMESSAGE d)) of
                     None \<Rightarrow> []
                   | Some b \<Rightarrow> map (\<lambda>c. Write c b (write_ok e c)) (targets (User_GameId u) cl)))"
    by (simp add: sendChatMessage_def chat_fanout_writes split: option.split)
  with run show ?thesis by simp
qed

theorem chat_rebroadcast_carries_remote_address_witness:
  "\<exists>t. handleChatMessage chat_env 1 [] three_peers = (three_peers, t, Returned) \<and>
        filter is_write t =
          [Write 1 ''base:chat:ann,10.0.0.1:5000,g,hello'' True,
           Write 2 ''base:chat:ann,10.0.0.1:5000,g,hello'' True,
           Write 3 ''base:chat:ann,10.0.0.1:5000,g,hello'' True]"
proof -
  have dec: "unmarshal_ChatMessage chat_env [] =
               Some (game_ChatMessage PROTO_TYPE_CHATMESSAGE
                       (Some (game_User ''ann'' ''s1'' ''g'')) ''hello'')"
    by (simp add: chat_env_def quiet_env_def)
  have usr: "Chat_User (game_ChatMessage PROTO_TYPE_CHATMESSAGE
                          (Some (game_User ''ann'' ''s1'' ''g'')) ''hello'') =
               Some (game_User ''ann'' ''s1'' ''g'')"
    by simp
  have tg: "targets ''g'' three_peers = [1, 2, 3]"
    by (simp add: targets_def three_peers_def)
  show ?thesis
    using chat_rebroadcast_carries_remote_address [OF dec usr, of 1 three_peers]
    by (simp add: tg chat_env_def quiet_env_def toy_marshal_def)
qed

section \<open>Point-to-point delivery\<close>

lemma find_none_iff_list_ex: "(find P cl = None) = (\<not> list_ex P cl)"
  by (induction cl) auto

lemma find_first_split:
  "find P xs = Some x \<Longrightarrow> \<exists>pre post. xs = pre @ x # post \<and> P x \<and> \<not> list_ex P pre"
proof (induction xs)
  case Nil
  then show ?case by simp
next
  case (Cons a xs)
  show ?case
  proof (cases "P a")
    case True
    with Cons.prems have "a = x" by simp
    with True have "a # xs = [] @ x # xs \<and> P x \<and> \<not> list_ex P []" by simp
    then show ?thesis by blast
  next
    case False
    with Cons.prems have "find P xs = Some x" by simp
    from Cons.IH [OF this] obtain pre post where
      "xs = pre @ x # post" "P x" "\<not> list_ex P pre" by blast
    with False have "a # xs = (a # pre) @ x # post \<and> P x \<and> \<not> list_ex P (a # pre)" by simp
    then show ?thesis by blast
  qed
qed

text \<open>
  C6, as amended. sendUpdateInfoToClient attempts exactly one write and returns nil: the
  write goes to the first connection, in the scan order of the registry, that holds a
  replica listing a user with the destination session id (no connection before it in the
  scan holds one). When no replica lists that session id nothing is written, one line is
  logged and nil is returned.
\<close>

theorem GameInfo_goes_to_first_holder:
  "(\<not> list_ex (\<lambda>(c, rooms). holds_session (GameInfo_DestinationId gameInfo) rooms) cl \<longrightarrow>
      sendUpdateInfoToClient e gameInfo cl =
        ([Lock, Log ''Client with destinationId %s not found'', Unlock], None)) \<and>
   (list_ex (\<lambda>(c, rooms). holds_session (GameInfo_DestinationId gameInfo) rooms) cl \<and>
    marshal e (MsgGameInfo gameInfo) = Some d \<and>
    marshal e (MsgBase (game_BaseMessage PROTO_TYPE_GAMEINFO d)) = Some b \<longrightarrow>
      (\<exists>pre c rooms post.
         cl = pre @ (c, rooms) # post \<and>
         \<not> list_ex (\<lambda>(c, rooms). holds_session (GameInfo_DestinationId gameInfo) rooms) pre \<and>
         holds_session (GameInfo_DestinationId gameInfo) rooms \<and>
         filter is_write (fst (sendUpdateInfoToClient e gameInfo cl)) = [Write c b (write_ok e c)]) \<and>
      snd (sendUpdateInfoToClient e gameInfo cl) = None)"
proof (intro conjI impI)
  assume "\<not> list_ex (\<lambda>(c, rooms). holds_session (GameInfo_DestinationId gameInfo) rooms) cl"
  then have "find (\<lambda>(c, rooms). holds_session (GameInfo_DestinationId gameInfo) rooms) cl = None"
    by (simp add: find_none_iff_list_ex)
  then show "sendUpdateInfoToClient e gameInfo cl =
        ([Lock, Log ''Client with destinationId %s not found'', Unlock], None)"
    by (simp add: sendUpdateInfoToClient_def)
next
  let ?H = "\<lambda>(c, rooms). holds_session (GameInfo_DestinationId gameInfo) rooms"
  assume a: "list_ex ?H cl \<and>
    marshal e (MsgGameInfo gameInfo) = Some d \<and>
    marshal e (MsgBase (game_BaseMessage PROTO_TYPE_GAMEINFO d)) = Some b"
  then obtain x where x: "find ?H cl = Some x"
    using find_none_iff_list_ex [of ?H cl] by (cases "find ?H cl") auto
  obtain c rooms where cr: "x = (c, rooms)" by (cases x)
  from find_first_split [OF x] cr obtain pre post where
    sp: "cl = pre @ (c, rooms) # post" and h: "holds_session (GameInfo_DestinationId gameInfo) rooms"
    and np: "\<not> list_ex ?H pre"
    by auto
  have tr: "filter is_write (fst (sendUpdateInfoToClient e gameInfo cl)) = [Write c b (write_ok e c)]"
    and rs: "snd (sendUpdateInfoToClient e gameInfo cl) = None"
    using a x cr by (simp_all add: sendUpdateInfoToClient_def SendMessageToClient_def)
  from sp np h tr
  show "\<exists>pre c rooms post.
         cl = pre @ (c, rooms) # post \<and>
         \<not> list_ex ?H pre \<and>
         holds_session (GameInfo_DestinationId gameInfo) rooms \<and>
         filter is_write (fst (sendUpdateInfoToClient e gameInfo cl)) = [Write c b (write_ok e c)]"
    by blast
  from rs show "snd (sendUpdateInfoToClient e gameInfo cl) = None" .
qed

theorem GameInfo_goes_to_first_holder_witness:
  "sendUpdateInfoToClient quiet_env (game_GameInfo (Some (game_User ''ann'' ''s1'' ''g'')) ''s9'')
     two_tables =
     ([Lock, Log ''Client with destinationId %s not found'', Unlock], None) \<and>
   filter is_write
     (fst (sendUpdateInfoToClient quiet_env
             (game_GameInfo (Some (game_User ''ann'' ''s1'' ''g'')) ''s2'') two_tables)) =
     [Write 1 ''base:payload'' True] \<and>
   snd (sendUpdateInfoToClient quiet_env
          (game_GameInfo (Some (game_User ''ann'' ''s1'' ''g'')) ''s2'') two_tables) = None"
  using GameInfo_goes_to_first_holder
          [of "game_GameInfo (Some (game_User ''ann'' ''s1'' ''g'')) ''s9''"
              two_tables quiet_env "''payload''" "''base:payload''"]
        GameInfo_goes_to_first_holder
          [of "game_GameInfo (Some (game_User ''ann'' ''s1'' ''g'')) ''s2''"
              two_tables quiet_env "''payload''" "''base:payload''"]
  by (simp add: two_tables_def holds_session_def player_def quiet_env_def toy_marshal_def
        sendUpdateInfoToClient_def SendMessageToClient_def)

text \<open>
  C6 as stated fails. Ann joins on connection 1 and bob on connection 2, and each
  connection replays the other's join, so both replicas list both users. A GameInfo for
  bob's session id is written to connection 1, the one ann joined on, and not to
  connection 2; visiting the same two entries in the other order it is written to
  connection 2. The registry records no owner of a user, and the recipient follows the
  scan order.
\<close>

theorem GameInfo_for_bob_reaches_ann:
  "fst (handleUserInfo join_env 2 []
          (fst (handleUserInfo (join_of ''bob'' ''s2'' ''g'') 1 []
                  (fst (handleUserInfo (join_of ''bob'' ''s2'' ''g'') 2 []
                          (fst (handleUserInfo join_env 1 [] []))))))) = two_tables \<and>
   filter is_write
     (fst (sendUpdateInfoToClient quiet_env
             (game_GameInfo (Some (game_User ''ann'' ''s1'' ''g'')) ''s2'') two_tables)) =
     [Write 1 ''base:payload'' True] \<and>
   filter is_write
     (fst (sendUpdateInfoToClient quiet_env
             (game_GameInfo (Some (game_User ''ann'' ''s1'' ''g'')) ''s2'') (rev two_tables))) =
     [Write 2 ''base:payload'' True]"
proof -
  let ?ann = "player ''ann'' ''s1'' False False False False"
  let ?bob = "player ''bob'' ''s2'' False False False False"
  have j1: "fst (handleUserInfo join_env 1 [] []) =
              [(1, [\<lparr>GameID = ''g'', started = False, Users = [?ann]\<rparr>])]"
    by (simp add: handleUserInfo_def join_env_def quiet_env_def rooms_at_def new_User_def
          addUserToRoom_def player_def Let_def)
  have j2: "fst (handleUserInfo (join_of ''bob'' ''s2'' ''g'') 2 []
                   [(1, [\<lparr>GameID = ''g'', started = False, Users = [?ann]\<rparr>])]) =
              [(1, [\<lparr>GameID = ''g'', started = False, Users = [?ann]\<rparr>]),
               (2, [\<lparr>GameID = ''g'', started = False, Users = [?bob]\<rparr>])]"
    by (simp add: handleUserInfo_def join_of_def quiet_env_def rooms_at_def new_User_def
          addUserToRoom_def player_def Let_def)
  have j3: "fst (handleUserInfo (join_of ''bob'' ''s2'' ''g'') 1 []
                   [(1, [\<lparr>GameID = ''g'', started = False, Users = [?ann]\<rparr>]),
                    (2, [\<lparr>GameID = ''g'', started = False, Users = [?bob]\<rparr>])]) =
              [(1, [\<lparr>GameID = ''g'', started = False, Users = [?ann, ?bob]\<rparr>]),
               (2, [\<lparr>GameID = ''g'', started = False, Users = [?bob]\<rparr>])]"
    by (simp add: handleUserInfo_def join_of_def quiet_env_def rooms_at_def new_User_def
          addUserToRoom_def player_def Let_def)
  have j4: "fst (handleUserInfo join_env 2 []
                   [(1, [\<lparr>GameID = ''g'', started = False, Users = [?ann, ?bob]\<rparr>]),
                    (2, [\<lparr>GameID = ''g'', started = False, Users = [?bob]\<rparr>])]) =
              two_tables"
    by (simp add: handleUserInfo_def join_env_def quiet_env_def rooms_at_def new_User_def
          addUserToRoom_def player_def two_tables_def Let_def)
  have w1: "filter is_write
     (fst (sendUpdateInfoToClient quiet_env
             (game_GameInfo (Some (game_User ''ann'' ''s1'' ''g'')) ''s2'') two_tables)) =
     [Write 1 ''base:payload'' True]"
    by (simp add: two_tables_def holds_session_def player_def quiet_env_def toy_marshal_def
          sendUpdateInfoToClient_def SendMessageToClient_def)
  have w2: "filter is_write
     (fst (sendUpdateInfoToClient quiet_env
             (game_GameInfo (Some (game_User ''ann'' ''s1'' ''g'')) ''s2'') (rev two_tables))) =
     [Write 2 ''base:payload'' True]"
    by (simp add: two_tables_def holds_session_def player_def quiet_env_def toy_marshal_def
          sendUpdateInfoToClient_def SendMessageToClient_def)
  from j1 j2 j3 j4 w1 w2 show ?thesis by simp
qed

section \<open>Ready toggle and round start\<close>

lemma rooms_of_Nil: "rooms_of gameID [] = []"
  by (simp add: rooms_of_def)

lemma rooms_of_Cons:
  "rooms_of gameID ((c, rooms) # cl) =
     filter (\<lambda>room. GameID room = gameID) rooms @ rooms_of gameID cl"
  by (simp add: rooms_of_def)

lemma no_users_sum:
  "(sum_list (map (\<lambda>room. length (Users room)) (filter (\<lambda>room. GameID room = gameID) rooms)) = 0)
     = list_all (no_users gameID) rooms"
  by (induction rooms) (simp_all add: no_users_def del: sum_list_eq_0_iff)

lemma ClientsInRoom_zero:
  "(ClientsInRoom gameID cl = 0) = list_all (\<lambda>(c, rooms). list_all (no_users gameID) rooms) cl"
proof (induction cl)
  case Nil
  show ?case by (simp add: ClientsInRoom_def rooms_of_Nil)
next
  case (Cons a cl)
  obtain c rooms where a: "a = (c, rooms)" by (cases a)
  have "ClientsInRoom gameID (a # cl) =
          sum_list (map (\<lambda>room. length (Users room)) (filter (\<lambda>room. GameID room = gameID) rooms))
          + ClientsInRoom gameID cl"
    by (simp add: a ClientsInRoom_def rooms_of_Cons)
  with Cons.IH show ?case
    by (simp add: a no_users_sum del: sum_list_eq_0_iff)
qed

lemma clientsReady_le: "clientsReady gameID cl \<le> ClientsInRoom gameID cl"
  unfolding clientsReady_def ClientsInRoom_def
  by (rule sum_list_mono) simp

lemma toggle_rooms_no_users:
  "list_all (no_users gameID) rooms \<Longrightarrow> toggle_rooms gameID sid rooms st = (rooms, st)"
  by (induction rooms arbitrary: st) (simp_all add: no_users_def)

lemma toggle_clients_no_users:
  "list_all (\<lambda>(c, rooms). list_all (no_users gameID) rooms) cl \<Longrightarrow>
   toggle_clients gameID sid cl st = (cl, st)"
  by (induction cl arbitrary: st) (auto simp: toggle_rooms_no_users)

lemma map_no_users:
  "list_all (no_users gameID) rooms \<Longrightarrow> map (mark_in_game gameID) rooms = rooms"
  "list_all (no_users gameID) rooms \<Longrightarrow> map (start_round gameID) rooms = rooms"
  by (induction rooms) (auto simp: no_users_def mark_in_game_def start_round_def)

lemma each_room_mark_no_users:
  assumes "list_all (\<lambda>(c, rooms). list_all (no_users gameID) rooms) cl"
  shows "each_room (mark_in_game gameID) cl = cl"
  using assms by (induction cl) (auto simp: each_room_def map_no_users)

lemma each_room_start_no_users:
  assumes "list_all (\<lambda>(c, rooms). list_all (no_users gameID) rooms) cl"
  shows "each_room (start_round gameID) cl = cl"
  using assms by (induction cl) (auto simp: each_room_def map_no_users)

lemma SendStartGameMessage_state:
  "fst (SendStartGameMessage e gameID text cl) = cl \<or>
   fst (SendStartGameMessage e gameID text cl) = each_room (mark_in_game gameID) cl"
  by (simp add: SendStartGameMessage_def SendStartGameMessageAndMark_def split: option.split)

lemma SendStartGameMessage_no_users:
  assumes "list_all (\<lambda>(c, rooms). list_all (no_users gameID) rooms) cl"
  shows "fst (SendStartGameMessage e gameID text cl) = cl"
  using SendStartGameMessage_state [of e gameID "text" cl] each_room_mark_no_users [OF assms]
  by auto

text \<open>
  C9. A Status event for a game code that matches no User entry in any replica finds
  ready count 0 equal to member count 0, so handleStatus calls GetText; when the fetch
  returns a prompt, SendStartGameMessage runs right after it, although the room has no
  members (when the fetch fails, the run ends there). The registry is left unchanged.
\<close>

theorem status_for_empty_room_runs_round_start:
  assumes dec: "unmarshal_Ready e data = Some status"
    and usr: "Ready_User status = Some u"
    and empty: "ClientsInRoom (User_GameId u) cl = 0"
  shows "clientsReady (User_GameId u) cl = ClientsInRoom (User_GameId u) cl \<and>
         (\<exists>pre post.
            handleStatus e conn data cl =
              (cl,
               pre @ [Http GetTextCall] @
               (case GetText e of
                  Inl err \<Rightarrow> [Log ''Error fetching text for game_id %s: %v'']
                | Inr text \<Rightarrow> snd (SendStartGameMessage e (User_GameId u) text cl) @ post),
               Returned))"
proof -
  let ?g = "User_GameId u"
  let ?sent = "SendStatusToGameClients e (Ready_ClassId status) u (Ready_Status status) cl"
  let ?pre = "[Lock, Unlock] @ locked_scan @ locked_scan @ fst ?sent @
              log_if_error ''Failed to send status to game clients: %v'' (snd ?sent)"
  have nu: "list_all (\<lambda>(c, rooms). list_all (no_users ?g) rooms) cl"
    using empty by (simp add: ClientsInRoom_zero)
  have ready: "clientsReady ?g cl = 0"
    using clientsReady_le [of ?g cl] empty by simp
  have tog: "toggle_clients ?g (User_SessionId u) cl (Ready_Status status) = (cl, Ready_Status status)"
    by (rule toggle_clients_no_users [OF nu])
  have run: "\<exists>post. handleStatus e conn data cl =
              (cl,
               ?pre @ [Http GetTextCall] @
               (case GetText e of
                  Inl err \<Rightarrow> [Log ''Error fetching text for game_id %s: %v'']
                | Inr text \<Rightarrow> snd (SendStartGameMessage e ?g text cl) @ post),
               Returned)"
  proof (cases "GetText e")
    case (Inl err)
    then show ?thesis
      by (simp add: handleStatus_def dec usr tog ready empty Let_def)
  next
    case (Inr prompt)
    obtain cl2 t2 where st: "SendStartGameMessage e ?g prompt cl = (cl2, t2)"
      by (cases "SendStartGameMessage e ?g prompt cl")
    with SendStartGameMessage_no_users [OF nu, of e prompt] have cl2: "cl2 = cl" by simp
    show ?thesis
      by (simp add: handleStatus_def dec usr tog ready empty Let_def Inr st cl2
            each_room_start_no_users [OF nu])
  qed
  from run obtain post where
    "handleStatus e conn data cl =
       (cl,
        ?pre @ [Http GetTextCall] @
        (case GetText e of
           Inl err \<Rightarrow> [Log ''Error fetching text for game_id %s: %v'']
         | Inr text \<Rightarrow> snd (SendStartGameMessage e ?g text cl) @ post),
        Returned)" ..
  then have "\<exists>pre post. handleStatus e conn data cl =
       (cl,
        pre @ [Http GetTextCall] @
        (case GetText e of
           Inl err \<Rightarrow> [Log ''Error fetching text for game_id %s: %v'']
         | Inr text \<Rightarrow> snd (SendStartGameMessage e ?g text cl) @ post),
        Returned)"
    by (intro exI)
  with ready empty show ?thesis by simp
qed

theorem status_for_empty_room_runs_round_start_witness:
  "clientsReady ''h'' three_peers = ClientsInRoom ''h'' three_peers \<and>
   (\<exists>pre post.
      handleStatus (status_env ''s1'' ''h'') 4 [] three_peers =
        (three_peers,
         pre @
         [Http GetTextCall,
          Log ''Sending start game message for game_id %s'',
          Log ''Sending message to game clients for game_id %s'',
          Lock, Write 4 ''base:start:prompt'' True, Unlock] @ post,
         Returned))"
proof -
  have dec: "unmarshal_Ready (status_env ''s1'' ''h'') [] =
               Some (game_Ready PROTO_TYPE_STATUS (Some (game_User [] ''s1'' ''h'')) True)"
    by (simp add: status_env_def quiet_env_def)
  have usr: "Ready_User (game_Ready PROTO_TYPE_STATUS (Some (game_User [] ''s1'' ''h'')) True) =
               Some (game_User [] ''s1'' ''h'')"
    by simp
  have empty: "ClientsInRoom (User_GameId (game_User [] ''s1'' ''h'')) three_peers = 0"
    by (simp add: ClientsInRoom_def rooms_of_def three_peers_def)
  have fetch: "GetText (status_env ''s1'' ''h'') = Inr ''prompt''"
    by (simp add: GetText_def status_env_def quiet_env_def)
  have start: "snd (SendStartGameMessage (status_env ''s1'' ''h'') ''h'' ''prompt'' three_peers) =
                 [Log ''Sending start game message for game_id %s'',
                  Log ''Sending message to game clients for game_id %s'',
                  Lock, Write 4 ''base:start:prompt'' True, Unlock]"
    by (simp add: SendStartGameMessage_def SendStartGameMessageAndMark_def SendMessageToClient_def
          targets_def three_peers_def status_env_def quiet_env_def toy_marshal_def)
  show ?thesis
    using status_for_empty_room_runs_round_start [OF dec usr empty, of 4]
    by (simp add: fetch start)
qed

lemma no_start_line_in_fanout:
  "count_list
     (concat (map (\<lambda>client.
                (case SendMessageToClient e client msg of
                   (t, None) \<Rightarrow> t
                 | (t, Some err) \<Rightarrow> t @ [Log ''Error sending message to client: %v''])) cs))
     (Log ''Sending start game message for game_id %s'') = 0"
  by (induction cs) (simp_all add: SendMessageToClient_def)

lemma no_start_line_in_status:
  "count_list (fst (SendStatusToGameClients e cid u st cl))
     (Log ''Sending start game message for game_id %s'') = 0"
  by (simp add: SendStatusToGameClients_def with_log_def send_wrapped_def
        SendMessageToGameClients_def no_start_line_in_fanout split: option.split)

lemma one_start_line_in_start:
  "count_list (snd (SendStartGameMessage e gameID prompt cl))
     (Log ''Sending start game message for game_id %s'') = 1"
  by (simp add: SendStartGameMessage_def SendStartGameMessageAndMark_def
        no_start_line_in_fanout split: option.split)

lemma no_start_line_in_log_if_error:
  "count_list (log_if_error ''Failed to send status to game clients: %v'' err)
     (Log ''Sending start game message for game_id %s'') = 0"
  by (simp add: log_if_error_def split: option.split)

lemma handleStatus_abort:
  assumes fail: "GetText e = Inl err"
    and dec: "unmarshal_Ready e data = Some status"
    and usr: "Ready_User status = Some u"
  shows "\<exists>t. handleStatus e conn data cl =
           (fst (toggle_clients (User_GameId u) (User_SessionId u) cl (Ready_Status status)),
            t, Returned) \<and>
           count_list t (Log ''Sending start game message for game_id %s'') = 0"
proof -
  obtain cl1 st1 where
    tog: "toggle_clients (User_GameId u) (User_SessionId u) cl (Ready_Status status) = (cl1, st1)"
    by (cases "toggle_clients (User_GameId u) (User_SessionId u) cl (Ready_Status status)")
  show ?thesis
    by (simp add: handleStatus_def dec usr tog fail Let_def locked_scan_def
          no_start_line_in_status no_start_line_in_log_if_error)
qed

lemma handleStatus_start:
  assumes ok: "GetText e = Inr prompt"
    and dec: "unmarshal_Ready e data = Some status"
    and usr: "Ready_User status = Some u"
    and ready: "clientsReady (User_GameId u)
                  (fst (toggle_clients (User_GameId u) (User_SessionId u) cl (Ready_Status status))) =
                ClientsInRoom (User_GameId u)
                  (fst (toggle_clients (User_GameId u) (User_SessionId u) cl (Ready_Status status)))"
  shows "count_list (fst (snd (handleStatus e conn data cl)))
           (Log ''Sending start game message for game_id %s'') = 1"
proof -
  obtain cl1 st1 where
    tog: "toggle_clients (User_GameId u) (User_SessionId u) cl (Ready_Status status) = (cl1, st1)"
    by (cases "toggle_clients (User_GameId u) (User_SessionId u) cl (Ready_Status status)")
  obtain cl2 t2 where st: "SendStartGameMessage e (User_GameId u) prompt cl1 = (cl2, t2)"
    by (cases "SendStartGameMessage e (User_GameId u) prompt cl1")
  have t2: "count_list t2 (Log ''Sending start game message for game_id %s'') = 1"
    using one_start_line_in_start [of e "User_GameId u" prompt cl1] st by simp
  from ready tog have r: "clientsReady (User_GameId u) cl1 = ClientsInRoom (User_GameId u) cl1"
    by simp
  show ?thesis
    by (simp add: handleStatus_def dec usr tog ok st r t2 Let_def locked_scan_def
          no_start_line_in_status no_start_line_in_log_if_error)
qed

lemma toggle_users_forget:
  "toggle_users sid users st = (users', st') \<Longrightarrow>
   map (\<lambda>user. user\<lparr>Ready := False\<rparr>) users' = map (\<lambda>user. user\<lparr>Ready := False\<rparr>) users"
  by (induction users arbitrary: users' st') (auto split: prod.splits if_splits)

lemma toggle_rooms_forget:
  "toggle_rooms gameID sid rooms st = (rooms', st') \<Longrightarrow>
   map forget_ready rooms' = map forget_ready rooms"
  by (induction rooms arbitrary: rooms' st st')
     (auto simp: forget_ready_def split: prod.splits if_splits dest: toggle_users_forget)

lemma toggle_clients_forget:
  "toggle_clients gameID sid cl st = (cl', st') \<Longrightarrow>
   each_room forget_ready cl' = each_room forget_ready cl"
proof (induction cl arbitrary: cl' st st')
  case Nil
  then show ?case by simp
next
  case (Cons a cl)
  obtain c rooms where a: "a = (c, rooms)" by (cases a)
  obtain rooms' st1 where r: "toggle_rooms gameID sid rooms st = (rooms', st1)"
    by (cases "toggle_rooms gameID sid rooms st")
  obtain rest' st2 where t: "toggle_clients gameID sid cl st1 = (rest', st2)"
    by (cases "toggle_clients gameID sid cl st1")
  from Cons.prems a r t have cl': "cl' = (c, rooms') # rest'" by simp
  from Cons.IH [OF t] toggle_rooms_forget [OF r] show ?case
    by (simp add: cl' a each_room_def)
qed

text \<open>
  C5. When GetText fails, handleStatus returns without calling SendStartGameMessage: the
  registry is the one left by the ready toggle, which differs from the registry before
  the event in Ready flags only (no flag is reset and no started flag changes). Nothing
  records the failed attempt: in the registry it leaves, a later Status event that
  satisfies the all-ready condition and whose fetch succeeds sends Start once. GetText
  itself fails on a transport error, on a status outside 200..299, and on an empty body
  (which the JSON decoder rejects), and never returns an empty prompt.
\<close>

theorem prompt_fetch_failure_aborts_round_start:
  assumes fail: "GetText e = Inl err"
    and dec: "unmarshal_Ready e data = Some status"
    and usr: "Ready_User status = Some u"
  shows "(\<exists>t. handleStatus e conn data cl =
            (fst (toggle_clients (User_GameId u) (User_SessionId u) cl (Ready_Status status)),
             t, Returned) \<and>
            count_list t (Log ''Sending start game message for game_id %s'') = 0) \<and>
         each_room forget_ready (fst (handleStatus e conn data cl)) = each_room forget_ready cl \<and>
         (\<forall>e2 conn2 data2 status2 u2 prompt.
            GetText e2 = Inr prompt \<and>
            unmarshal_Ready e2 data2 = Some status2 \<and>
            Ready_User status2 = Some u2 \<and>
            clientsReady (User_GameId u2)
              (fst (toggle_clients (User_GameId u2) (User_SessionId u2)
                      (fst (handleStatus e conn data cl)) (Ready_Status status2))) =
            ClientsInRoom (User_GameId u2)
              (fst (toggle_clients (User_GameId u2) (User_SessionId u2)
                      (fst (handleStatus e conn data cl)) (Ready_Status status2))) \<longrightarrow>
            count_list (fst (snd (handleStatus e2 conn2 data2 (fst (handleStatus e conn data cl)))))
              (Log ''Sending start game message for game_id %s'') = 1) \<and>
         (http_text e3 = NetworkError \<longrightarrow> isl (GetText e3)) \<and>
         (\<forall>code body. http_text e3 = Response code body \<and> (code < 200 \<or> 299 < code) \<longrightarrow>
            isl (GetText e3)) \<and>
         (http_text e3 = Response 200 (Some []) \<and> json_text e3 [] = None \<longrightarrow> isl (GetText e3)) \<and>
         (\<forall>prompt. GetText e3 = Inr prompt \<longrightarrow> prompt \<noteq> [])"
proof -
  let ?cl1 = "fst (toggle_clients (User_GameId u) (User_SessionId u) cl (Ready_Status status))"
  from handleStatus_abort [OF fail dec usr, of conn cl]
  have abort: "\<exists>t. handleStatus e conn data cl = (?cl1, t, Returned) \<and>
            count_list t (Log ''Sending start game message for game_id %s'') = 0" .
  then have state: "fst (handleStatus e conn data cl) = ?cl1" by auto
  have same: "each_room forget_ready (fst (handleStatus e conn data cl)) = each_room forget_ready cl"
    unfolding state by (rule toggle_clients_forget [OF prod.collapse [symmetric]])
  have retry: "\<forall>e2 conn2 data2 status2 u2 prompt.
            GetText e2 = Inr prompt \<and>
            unmarshal_Ready e2 data2 = Some status2 \<and>
            Ready_User status2 = Some u2 \<and>
            clientsReady (User_GameId u2)
              (fst (toggle_clients (User_GameId u2) (User_SessionId u2)
                      (fst (handleStatus e conn data cl)) (Ready_Status status2))) =
            ClientsInRoom (User_GameId u2)
              (fst (toggle_clients (User_GameId u2) (User_SessionId u2)
                      (fst (handleStatus e conn data cl)) (Ready_Status status2))) \<longrightarrow>
            count_list (fst (snd (handleStatus e2 conn2 data2 (fst (handleStatus e conn data cl)))))
              (Log ''Sending start game message for game_id %s'') = 1"
    by (intro allI impI) (elim conjE, rule handleStatus_start)
  have g1: "http_text e3 = NetworkError \<longrightarrow> isl (GetText e3)"
    by (simp add: GetText_def)
  have g2: "\<forall>code body. http_text e3 = Response code body \<and> (code < 200 \<or> 299 < code) \<longrightarrow>
            isl (GetText e3)"
    by (auto simp: GetText_def)
  have g3: "http_text e3 = Response 200 (Some []) \<and> json_text e3 [] = None \<longrightarrow> isl (GetText e3)"
    by (simp add: GetText_def)
  have g4: "\<forall>prompt. GetText e3 = Inr prompt \<longrightarrow> prompt \<noteq> []"
    by (auto simp: GetText_def split: http_response.splits option.splits if_splits)
  from abort same retry g1 g2 g3 g4 show ?thesis by (intro conjI)
qed

theorem prompt_fetch_failure_aborts_round_start_witness:
  "(\<exists>t. handleStatus ((status_env ''s1'' ''g'')\<lparr>http_text := NetworkError\<rparr>) 1 [] three_peers =
           (ready_peers, t, Returned) \<and>
         count_list t (Log ''Sending start game message for game_id %s'') = 0) \<and>
   each_room forget_ready ready_peers = each_room forget_ready three_peers \<and>
   count_list (fst (snd (handleStatus (status_env ''s0'' ''g'') 2 [] ready_peers)))
     (Log ''Sending start game message for game_id %s'') = 1 \<and>
   isl (GetText ((status_env ''s1'' ''g'')\<lparr>http_text := NetworkError\<rparr>)) \<and>
   isl (GetText (quiet_env\<lparr>http_text := Response 404 None\<rparr>)) \<and>
   isl (GetText (quiet_env\<lparr>http_text := Response 200 (Some [])\<rparr>))"
proof -
  let ?e = "(status_env ''s1'' ''g'')\<lparr>http_text := NetworkError\<rparr>"
  let ?status = "game_Ready PROTO_TYPE_STATUS (Some (game_User [] ''s1'' ''g'')) True"
  let ?u = "game_User [] ''s1'' ''g''"
  have fail: "GetText ?e = Inl ErrNetwork"
    by (simp add: GetText_def)
  have dec: "unmarshal_Ready ?e [] = Some ?status"
    by (simp add: status_env_def quiet_env_def)
  have usr: "Ready_User ?status = Some ?u"
    by simp
  note T = prompt_fetch_failure_aborts_round_start [OF fail dec usr, of 1 three_peers]
  have tog: "fst (toggle_clients ''g'' ''s1'' three_peers True) = ready_peers"
    by (simp add: three_peers_def ready_peers_def player_def)
  from T [of ?e, THEN conjunct1]
  have a: "\<exists>t. handleStatus ?e 1 [] three_peers = (ready_peers, t, Returned) \<and>
                count_list t (Log ''Sending start game message for game_id %s'') = 0"
    by (simp add: tog)
  then have state: "fst (handleStatus ?e 1 [] three_peers) = ready_peers"
    by auto
  have b: "each_room forget_ready ready_peers = each_room forget_ready three_peers"
    using T [of ?e, THEN conjunct2, THEN conjunct1] unfolding state .
  have tog2: "fst (toggle_clients ''g'' ''s0'' ready_peers True) = ready_peers"
    by (simp add: ready_peers_def player_def)
  have counts: "clientsReady ''g'' ready_peers = ClientsInRoom ''g'' ready_peers"
    by (simp add: clientsReady_def ClientsInRoom_def rooms_of_def ready_peers_def player_def)
  have pre: "GetText (status_env ''s0'' ''g'') = Inr ''prompt'' \<and>
             unmarshal_Ready (status_env ''s0'' ''g'') [] =
               Some (game_Ready PROTO_TYPE_STATUS (Some (game_User [] ''s0'' ''g'')) True) \<and>
             Ready_User (game_Ready PROTO_TYPE_STATUS (Some (game_User [] ''s0'' ''g'')) True) =
               Some (game_User [] ''s0'' ''g'') \<and>
             clientsReady (User_GameId (game_User [] ''s0'' ''g''))
               (fst (toggle_clients (User_GameId (game_User [] ''s0'' ''g''))
                       (User_SessionId (game_User [] ''s0'' ''g''))
                       (fst (handleStatus ?e 1 [] three_peers))
                       (Ready_Status (game_Ready PROTO_TYPE_STATUS
                                        (Some (game_User [] ''s0'' ''g'')) True)))) =
             ClientsInRoom (User_GameId (game_User [] ''s0'' ''g''))
               (fst (toggle_clients (User_GameId (game_User [] ''s0'' ''g''))
                       (User_SessionId (game_User [] ''s0'' ''g''))
                       (fst (handleStatus ?e 1 [] three_peers))
                       (Ready_Status (game_Ready PROTO_TYPE_STATUS
                                        (Some (game_User [] ''s0'' ''g'')) True))))"
    unfolding state by (simp add: tog2 counts GetText_def status_env_def quiet_env_def)
  have c: "count_list (fst (snd (handleStatus (status_env ''s0'' ''g'') 2 [] ready_peers)))
             (Log ''Sending start game message for game_id %s'') = 1"
    using T [of ?e, THEN conjunct2, THEN conjunct2, THEN conjunct1, rule_format, OF pre, of 2]
    unfolding state .
  from T [of ?e, THEN conjunct2, THEN conjunct2, THEN conjunct2, THEN conjunct1]
  have d: "isl (GetText ?e)" by simp
  from T [of "quiet_env\<lparr>http_text := Response 404 None\<rparr>",
          THEN conjunct2, THEN conjunct2, THEN conjunct2, THEN conjunct2, THEN conjunct1,
          rule_format, of 404 None]
  have f: "isl (GetText (quiet_env\<lparr>http_text := Response 404 None\<rparr>))" by simp
  from T [of "quiet_env\<lparr>http_text := Response 200 (Some [])\<rparr>",
          THEN conjunct2, THEN conjunct2, THEN conjunct2, THEN conjunct2, THEN conjunct2,
          THEN conjunct1]
  have g: "isl (GetText (quiet_env\<lparr>http_text := Response 200 (Some [])\<rparr>))"
    by (simp add: quiet_env_def)
  from a b c d f g show ?thesis by (intro conjI)
qed

section \<open>Turn action\<close>






































section \<open>Lock discipline\<close>

text \<open>
  A trace segment is plain when it contains no lock event; a plain segment that starts
  with \<^verbatim>\<open>mu\<close> free cannot violate the discipline.
\<close>

lemma plain_simps:
  "plain []"
  "plain (ev # t) = (ev \<noteq> Lock \<and> ev \<noteq> Unlock \<and> plain t)"
  "plain (t @ r) = (plain t \<and> plain r)"
  by (simp_all add: plain_def)

lemma plain_concat: "list_all (\<lambda>x. plain (f x)) xs \<Longrightarrow> plain (concat (map f xs))"
  by (induction xs) (simp_all add: plain_simps)

lemma unlocked_plain:
  "plain t \<Longrightarrow> unlocked_at P False (t @ r) = unlocked_at P False r"
proof (induction t)
  case Nil
  show ?case by simp
next
  case (Cons ev t)
  then show ?case by (cases ev) (simp_all add: plain_simps)
qed

lemma unlocked_plain_end: "plain t \<Longrightarrow> unlocked_at P False t"
  using unlocked_plain [of t P "[]"] by simp

lemma unlocked_plain_quiet:
  "plain t \<Longrightarrow> list_all (\<lambda>ev. \<not> P ev) t \<Longrightarrow> unlocked_at P held (t @ r) = unlocked_at P held r"
proof (induction t)
  case Nil
  show ?case by simp
next
  case (Cons ev t)
  then show ?case by (cases ev) (simp_all add: plain_simps)
qed

lemma plain_fanout:
  "plain (concat (map (\<lambda>client.
                (case SendMessageToClient e client msg of
                   (t, None) \<Rightarrow> t
                 | (t, Some err) \<Rightarrow> t @ [Log l])) cs))"
  by (rule plain_concat) (simp add: list_all_iff SendMessageToClient_def plain_simps)

lemma no_http_fanout:
  "list_all (\<lambda>ev. \<not> is_http ev)
     (concat (map (\<lambda>client.
                (case SendMessageToClient e client msg of
                   (t, None) \<Rightarrow> t
                 | (t, Some err) \<Rightarrow> t @ [Log l])) cs))"
  by (induction cs) (simp_all add: SendMessageToClient_def)

lemma plain_send_wrapped: "plain (fst (send_wrapped e cls payload gameID cl))"
  by (simp add: send_wrapped_def SendMessageToGameClients_def plain_simps plain_fanout
        split: option.split)

lemma plain_with_log: "plain (fst (with_log l r)) = plain (fst r)"
  by (simp add: with_log_def plain_simps)

lemma plain_log_if_error: "plain (log_if_error l err)"
  by (simp add: log_if_error_def plain_simps split: option.split)

lemma plain_SendDeleteMessage: "plain (SendDeleteMessage e gameID cl)"
  unfolding SendDeleteMessage_def plain_simps
  by (intro conjI plain_concat) (simp_all add: list_all_iff plain_simps split: option.split)

lemma plain_SendAction: "plain (fst (SendActionToGameClients e u cl))"
  by (simp add: SendActionToGameClients_def plain_with_log plain_send_wrapped)

lemma plain_SendStatus: "plain (fst (SendStatusToGameClients e cid u st cl))"
  by (simp add: SendStatusToGameClients_def plain_with_log plain_send_wrapped)

lemma handleAction_unlocked:
  "unlocked_at P False (fst (snd (handleAction e conn data cl)))"
proof (cases "unmarshal_Action e data")
  case None
  then show ?thesis by (simp add: handleAction_def)
next
  case (Some action)
  show ?thesis
  proof (cases "Action_User action")
    case None
    with Some show ?thesis by (simp add: handleAction_def)
  next
    case usr: (Some u)
    obtain cl1 t1 where k: "turn_clients (User_GameId u) (User_SessionId u) cl False = (cl1, t1)"
      by (cases "turn_clients (User_GameId u) (User_SessionId u) cl False")
    show ?thesis
      by (simp add: handleAction_def Some usr k Let_def locked_scan_def
            unlocked_plain plain_SendAction plain_log_if_error plain_SendDeleteMessage)
  qed
qed

lemma unlocked_after_start:
  "unlocked_at is_http False (snd (SendStartGameMessage e gameID prompt cl) @ r) =
   unlocked_at is_http False r"
  by (simp add: SendStartGameMessage_def SendStartGameMessageAndMark_def
        unlocked_plain_quiet plain_fanout no_http_fanout split: option.split)

lemma handleStatus_http_unlocked:
  "unlocked_at is_http False (fst (snd (handleStatus e conn data cl)))"
proof (cases "unmarshal_Ready e data")
  case None
  then show ?thesis by (simp add: handleStatus_def)
next
  case (Some status)
  show ?thesis
  proof (cases "Ready_User status")
    case None
    with Some show ?thesis by (simp add: handleStatus_def)
  next
    case usr: (Some u)
    obtain cl1 st1 where
      k: "toggle_clients (User_GameId u) (User_SessionId u) cl (Ready_Status status) = (cl1, st1)"
      by (cases "toggle_clients (User_GameId u) (User_SessionId u) cl (Ready_Status status)")
    show ?thesis
    proof (cases "GetText e")
      case (Inl err)
      show ?thesis
        by (simp add: handleStatus_def Some usr k Inl Let_def locked_scan_def
              unlocked_plain unlocked_plain_end plain_SendStatus plain_log_if_error)
    next
      case (Inr prompt)
      obtain cl2 t2 where st: "SendStartGameMessage e (User_GameId u) prompt cl1 = (cl2, t2)"
        by (cases "SendStartGameMessage e (User_GameId u) prompt cl1")
      from unlocked_after_start [of e "User_GameId u" prompt cl1] st
      have t2: "unlocked_at is_http False (t2 @ r) = unlocked_at is_http False r" for r
        by simp
      show ?thesis
        by (simp add: handleStatus_def Some usr k Inr st Let_def locked_scan_def t2
              unlocked_plain unlocked_plain_end plain_SendStatus plain_log_if_error)
    qed
  qed
qed

lemma start_fanout_locked:
  "unlocked_at is_io False (snd (SendStartGameMessageAndMark e gameID msg cl)) =
   (targets gameID cl = [])"
  by (cases "targets gameID cl")
     (simp_all add: SendStartGameMessageAndMark_def SendMessageToClient_def)

text \<open>
  C8, as amended. In the Action handler no socket write and no service call happens
  while \<^verbatim>\<open>mu\<close> is held, and in the Status handler no service call does; the Start
  fan-out of SendStartGameMessageAndMark writes with \<^verbatim>\<open>mu\<close> held whenever it has a
  target at all.
\<close>

theorem lock_released_before_io_in_action_and_status:
  "unlocked_at is_io False (fst (snd (handleAction e1 conn1 data1 cl1))) \<and>
   unlocked_at is_http False (fst (snd (handleStatus e2 conn2 data2 cl2))) \<and>
   unlocked_at is_io False (snd (SendStartGameMessageAndMark e3 gameID msg cl3)) =
     (targets gameID cl3 = [])"
  by (intro conjI handleAction_unlocked handleStatus_http_unlocked start_fanout_locked)

theorem lock_released_before_io_in_action_and_status_witness:
  "unlocked_at is_io False (fst (snd (handleAction (action_env ''s1'' ''g'') 1 [] three_peers))) \<and>
   unlocked_at is_http False (fst (snd (handleStatus (status_env ''s1'' ''g'') 1 [] three_peers))) \<and>
   \<not> unlocked_at is_io False (snd (SendStartGameMessageAndMark quiet_env ''g'' ''m'' three_peers))"
proof -
  have "targets ''g'' three_peers \<noteq> []"
    by (simp add: targets_def three_peers_def)
  with lock_released_before_io_in_action_and_status
         [of "action_env ''s1'' ''g''" 1 "[]" three_peers "status_env ''s1'' ''g''" 1 "[]" three_peers
             quiet_env "''g''" "''m''" three_peers]
  show ?thesis by simp
qed

text \<open>
  C8 as stated fails: the first join of a connection is rebroadcast by handleUserInfo
  between \<^verbatim>\<open>mu.Lock()\<close> and the deferred \<^verbatim>\<open>mu.Unlock()\<close>.
\<close>

theorem handleUserInfo_writes_under_lock:
  "\<not> unlocked_at is_io False (fst (snd (handleUserInfo join_env 1 [] [])))"
  by (simp add: handleUserInfo_def join_env_def quiet_env_def rooms_at_def new_User_def
        addUserToRoom_def SendUserInfoToGameClients_def SendUpdateMessage_def with_log_def
        send_wrapped_def SendMessageToGameClients_def SendMessageToClient_def targets_def
        toy_marshal_def Let_def)

section \<open>Round end in the Action handler\<close>

text \<open>
  C1. In a started room whose only in-game member has not acted, that member's Action
  makes the turn count equal the in-game count: DeleteCards is broadcast once, voted is
  reset and started becomes false, but the reset loop of handleAction does not assign
  \<^verbatim>\<open>user.Turn\<close>, so the turn flag is still set afterwards. (The all-moved branch of
  updateGame resets both \<^verbatim>\<open>Turn\<close> and \<^verbatim>\<open>Voted\<close>.)
\<close>

theorem handleAction_all_moved_keeps_turn:
  "fst (handleAction (action_env ''s1'' ''g'') 1 [] round_of_one) =
     [(1, [\<lparr>GameID = ''g'', started = False,
            Users = [player ''ann'' ''s1'' False True False True]\<rparr>])] \<and>
   count_list (fst (snd (handleAction (action_env ''s1'' ''g'') 1 [] round_of_one)))
     (Log ''Sending delete message for game_id %s'') = 1"
  by (simp add: handleAction_def action_env_def quiet_env_def round_of_one_def player_def
        clientsMoved_def ClientsInGame_def rooms_of_def each_room_def end_round_def
        SendActionToGameClients_def with_log_def send_wrapped_def SendMessageToGameClients_def
        SendMessageToClient_def SendDeleteMessage_def targets_def toy_marshal_def
        log_if_error_def locked_scan_def Let_def)

section \<open>Decoding and the read loop\<close>

text \<open>
  An envelope or payload that does not decode is logged and dropped, and the read loop
  goes on. A payload that decodes to a message without \<^verbatim>\<open>User\<close> makes the handler panic.
\<close>

lemma envelope_decode_error_is_dropped:
  assumes "unmarshal_BaseMessage e message = None"
  shows "fst (read_loop e conn (message # rest) cl) =
           (case fst (read_loop e conn rest cl) of
              (cl', t, oc) \<Rightarrow> (cl', Log ''Error unmarshaling message: %v'' # t, oc))"
  using assms by (simp split: prod.split)

lemma payload_decode_error_is_dropped:
  "unmarshal_ChatMessage e data = None \<Longrightarrow>
     handleChatMessage e conn data cl =
       (cl, [Log ''Error unmarshaling chat message: %v''], Returned)"
  "unmarshal_UserInfo e data = None \<Longrightarrow>
     handleUserInfo e conn data cl = (cl, [Log ''Error unmarshaling UserInfo: %v''], Returned)"
  by (simp_all add: handleChatMessage_def handleUserInfo_def)

lemma absent_user_panics:
  "unmarshal_ChatMessage e data = Some chatMsg \<Longrightarrow> Chat_User chatMsg = None \<Longrightarrow>
     handleChatMessage e conn data cl = (cl, [], Panicked)"
  "unmarshal_UserInfo e data = Some userInfo \<Longrightarrow> UserInfo_User userInfo = None \<Longrightarrow>
     snd (snd (handleUserInfo e conn data cl)) = Panicked"
  by (simp_all add: handleChatMessage_def handleUserInfo_def Let_def)

text \<open>
  C2. A frame whose envelope has class id CHATMESSAGE and whose payload decodes to a
  ChatMessage without User: handleChatMessage dereferences the nil \<^verbatim>\<open>User\<close>, the panic
  unwinds handleClient, whose deferred function removes the connection from the registry
  and closes the socket; the next frame is never read.
\<close>

theorem handleClient_panics_on_absent_user:
  "handleClient nil_user_env 1 [''frame'', ''next''] three_peers =
     ((AList.delete 1 three_peers, [Lock, Unlock, Close 1 True], Panicked), [''next''])"
  by (simp add: handleClient_def dispatch_def handleChatMessage_def nil_user_env_def quiet_env_def)

section \<open>Disconnect\<close>

text \<open>
  C3. Two Disconnect events of bob. In a started room where ann has acted and bob has not,
  the removal makes the turn count equal the in-game count: updateGame broadcasts
  DeleteCards and resets turn and voted, but \<^verbatim>\<open>started\<close> stays true. In a lobby where ann
  is ready and bob is not, the removal makes the ready count equal the member count:
  updateGame fetches the prompt, sends Start (ann is marked in game) and resets ready, but
  \<^verbatim>\<open>started\<close> stays false. handleAction and handleStatus assign \<^verbatim>\<open>room.started\<close> in the
  same two transitions.
\<close>

theorem handleDisconnect_leaves_started:
  "fst (handleDisconnect (disconnect_env ''s2'' ''g'') 1 [] round_of_two) =
     [(1, [\<lparr>GameID = ''g'', started = True,
            Users = [player ''ann'' ''s1'' False False False True]\<rparr>])] \<and>
   fst (handleDisconnect (disconnect_env ''s2'' ''g'') 1 [] lobby_of_two) =
     [(1, [\<lparr>GameID = ''g'', started = False,
            Users = [player ''ann'' ''s1'' False False False True]\<rparr>])]"
  by (simp add: handleDisconnect_def disconnect_env_def quiet_env_def round_of_two_def
        lobby_of_two_def player_def disconnectUser_def holds_session_def removeUserFromRoom_def
        updateGame_def clientsMoved_def ClientsInGame_def ClientsInRoom_def clientsReady_def
        rooms_of_def each_room_def reset_turn_voted_def reset_ready_def GetText_def
        SendStartGameMessage_def SendStartGameMessageAndMark_def mark_in_game_def
        toy_marshal_def Let_def)

end
